theory Spec2Isabelle
  imports Complex_Main
begin

section \<open>Nasir Store API: data model\<close>

text \<open>
  The program is a FastAPI service (main.py) over MongoDB collections whose documents
  follow the pydantic models of schemas.py. An endpoint is modelled as a function from
  the database (and the inputs the environment gives: clock, generated ObjectId, e-mail
  validator, regular-expression engine) to its outcome and the database afterwards.
  An exception is a value of type \<open>error\<close>; the outcome is \<open>error + response\<close>.

  Python floats are modelled as reals (IEEE rounding is left out), Python strings as
  HOL strings.
\<close>

datatype error =
    HTTPException nat string
  | ValidationError
  | RequestValidationError
  | OperationFailure

text \<open>
  \<open>HTTPException code detail\<close> is the exception main.py raises itself;
  \<open>ValidationError\<close> is pydantic rejecting the fields given to a model constructor
  inside a handler; \<open>RequestValidationError\<close> is FastAPI rejecting a query
  parameter (\<open>Query(100, ge=1, le=200)\<close>); \<open>OperationFailure\<close> is the database
  server rejecting a query (a \<open>$regex\<close> that does not compile).
\<close>

record datetime =
  year :: nat
  month :: nat
  day :: nat
  hour :: nat
  minute :: nat
  second :: nat

text \<open>The value of \<open>_id\<close>: an ObjectId in a stored document, its string after \<open>to_dict\<close>.\<close>

datatype id_value = ObjectId string | IdStr string

fun str_id :: "id_value \<Rightarrow> string" where
  "str_id (ObjectId h) = h"
| "str_id (IdStr s) = s"

subsection \<open>schemas.py\<close>

text \<open>
  A product document. \<open>name\<close> and \<open>price_monthly\<close> are read with \<open>.get\<close> in
  \<open>create_order\<close>, so they may be absent from a stored document.
\<close>

record product =
  name :: "string option"
  slug :: string
  description :: string
  short_description :: string
  logo_url :: "string option"
  category :: string
  durations :: "string list"
  login_method :: string
  price_monthly :: "real option"
  price_lifetime :: "real option"
  is_featured :: bool
  is_active :: bool

record credentials =
  username :: string
  password :: string
  cred_note :: string

text \<open>
  An order document: the fields of the \<open>Order\<close> model, and \<open>updated_at\<close>, which
  \<open>payment_notify\<close> adds with \<open>$set\<close>.
\<close>

record order =
  product_id :: string
  product_name :: string
  package :: string
  price :: real
  buyer_name :: string
  email :: string
  whatsapp :: string
  payment_method :: string
  status :: string
  order_code :: "string option"
  delivery_channel :: string
  delivery_note :: "string option"
  delivered_payload :: "credentials option"
  updated_at :: "datetime option"

record testimonial =
  t_name :: string
  rating :: int
  comment :: string
  t_product_slug :: "string option"

record contact_message =
  c_name :: string
  c_email :: string
  c_whatsapp :: "string option"
  message :: string

datatype body =
    ProductBody product
  | OrderBody order
  | TestimonialBody testimonial
  | ContactBody contact_message

record document =
  doc_id :: id_value
  body :: body

text \<open>The database: each named collection holds its documents in insertion order.\<close>

type_synonym database = "string \<Rightarrow> document list"

subsection \<open>Reading a field of a document (\<open>doc.get(key)\<close>; \<open>None\<close> when absent)\<close>

fun get_slug :: "document \<Rightarrow> string option" where
  "get_slug d = (case body d of ProductBody p \<Rightarrow> Some (slug p) | _ \<Rightarrow> None)"

fun get_is_active :: "document \<Rightarrow> bool option" where
  "get_is_active d = (case body d of ProductBody p \<Rightarrow> Some (is_active p) | _ \<Rightarrow> None)"

fun get_category :: "document \<Rightarrow> string option" where
  "get_category d = (case body d of ProductBody p \<Rightarrow> Some (category p) | _ \<Rightarrow> None)"

fun get_is_featured :: "document \<Rightarrow> bool option" where
  "get_is_featured d = (case body d of ProductBody p \<Rightarrow> Some (is_featured p) | _ \<Rightarrow> None)"

fun get_name :: "document \<Rightarrow> string option" where
  "get_name d = (case body d of
       ProductBody p \<Rightarrow> name p
     | TestimonialBody t \<Rightarrow> Some (t_name t)
     | ContactBody c \<Rightarrow> Some (c_name c)
     | OrderBody _ \<Rightarrow> None)"

fun get_description :: "document \<Rightarrow> string option" where
  "get_description d = (case body d of ProductBody p \<Rightarrow> Some (description p) | _ \<Rightarrow> None)"

fun get_short_description :: "document \<Rightarrow> string option" where
  "get_short_description d =
     (case body d of ProductBody p \<Rightarrow> Some (short_description p) | _ \<Rightarrow> None)"

fun get_price_monthly :: "document \<Rightarrow> real option" where
  "get_price_monthly d = (case body d of ProductBody p \<Rightarrow> price_monthly p | _ \<Rightarrow> None)"

fun get_order_code :: "document \<Rightarrow> string option" where
  "get_order_code d = (case body d of OrderBody ord \<Rightarrow> order_code ord | _ \<Rightarrow> None)"

subsection \<open>Queries\<close>

text \<open>
  The conditions main.py puts into a filter. \<open>Or_regex m\<close> is the \<open>$or\<close> of the three
  case-insensitive \<open>$regex\<close> conditions of \<open>list_products\<close>, \<open>m\<close> the compiled pattern.
  A condition on a field the document lacks does not match.
\<close>

datatype cond =
    Eq_slug string
  | Eq_is_active bool
  | Eq_category string
  | Eq_is_featured bool
  | Eq_order_code string
  | Eq_id id_value
  | Or_regex "string \<Rightarrow> bool"

fun regex_field :: "(string \<Rightarrow> bool) \<Rightarrow> string option \<Rightarrow> bool" where
  "regex_field m None = False"
| "regex_field m (Some s) = m s"

fun matches :: "document \<Rightarrow> cond \<Rightarrow> bool" where
  "matches d (Eq_slug s) = (get_slug d = Some s)"
| "matches d (Eq_is_active b) = (get_is_active d = Some b)"
| "matches d (Eq_category c) = (get_category d = Some c)"
| "matches d (Eq_is_featured b) = (get_is_featured d = Some b)"
| "matches d (Eq_order_code c) = (get_order_code d = Some c)"
| "matches d (Eq_id i) = (doc_id d = i)"
| "matches d (Or_regex m) =
     (regex_field m (get_name d) \<or> regex_field m (get_description d)
      \<or> regex_field m (get_short_description d))"

definition matches_all :: "cond list \<Rightarrow> document \<Rightarrow> bool" where
  "matches_all filt d = list_all (matches d) filt"

text \<open>\<open>collection.find_one(filt)\<close>: the first matching document, or \<open>None\<close>.\<close>

fun find_one :: "cond list \<Rightarrow> document list \<Rightarrow> document option" where
  "find_one filt [] = None"
| "find_one filt (d # ds) = (if matches_all filt d then Some d else find_one filt ds)"

text \<open>\<open>collection.find(filt).limit(n)\<close> for \<open>n > 0\<close>: the first \<open>n\<close> matching documents.\<close>

definition find_limit :: "cond list \<Rightarrow> nat \<Rightarrow> document list \<Rightarrow> document list" where
  "find_limit filt n ds = take n (filter (matches_all filt) ds)"

text \<open>
  \<open>collection.update_one(filt, {"$set": ...})\<close>: the first matching document is
  replaced by its update, the others stay.
\<close>

fun update_one :: "cond list \<Rightarrow> (document \<Rightarrow> document) \<Rightarrow> document list \<Rightarrow> document list" where
  "update_one filt f [] = []"
| "update_one filt f (d # ds) =
     (if matches_all filt d then f d # ds else d # update_one filt f ds)"

text \<open>
  The assignments of a \<open>$set\<close> in main.py. They are applied to order documents only
  (the filter of \<open>payment_notify\<close> is the \<open>_id\<close> of a document found by its
  \<open>order_code\<close>); a document of another shape is left as it is.
\<close>

datatype assignment =
    Set_status string
  | Set_delivered_payload credentials
  | Set_updated_at datetime

fun assign :: "assignment \<Rightarrow> order \<Rightarrow> order" where
  "assign (Set_status s) ord = ord\<lparr>status := s\<rparr>"
| "assign (Set_delivered_payload c) ord = ord\<lparr>delivered_payload := Some c\<rparr>"
| "assign (Set_updated_at t) ord = ord\<lparr>updated_at := Some t\<rparr>"

fun set_fields :: "assignment list \<Rightarrow> document \<Rightarrow> document" where
  "set_fields as d =
     (case body d of
        OrderBody ord \<Rightarrow> d\<lparr>body := OrderBody (foldl (\<lambda>r a. assign a r) ord as)\<rparr>
      | _ \<Rightarrow> d)"

text \<open>
  Modelled from the spec: \<open>database.create_document\<close> is imported by main.py and is not
  among the source files. The spec describes the service as "direct pass-through to a
  database driver" over "a MongoDB collection per resource": the document is inserted
  into the named collection under the ObjectId the driver generates (\<open>oid\<close>), and the
  id is returned as a string.
\<close>

definition create_document :: "string \<Rightarrow> body \<Rightarrow> string \<Rightarrow> database \<Rightarrow> string \<times> database" where
  "create_document collection_name data oid db =
     (oid, db(collection_name := db collection_name @ [\<lparr>doc_id = ObjectId oid, body = data\<rparr>]))"

subsection \<open>Utility\<close>

text \<open>\<open>to_dict\<close>: a document read from the database always has its \<open>_id\<close>, so it is not empty.\<close>

definition to_dict :: "document \<Rightarrow> document" where
  "to_dict doc = doc\<lparr>doc_id := IdStr (str_id (doc_id doc))\<rparr>"

subsection \<open>Strings\<close>

text \<open>
  \<open>str.lower()\<close> on the letters A to Z; every other character stays (the order codes
  the service generates are ASCII).
\<close>

definition char_lower :: "char \<Rightarrow> char" where
  "char_lower c =
     (case map_of (zip ''ABCDEFGHIJKLMNOPQRSTUVWXYZ'' ''abcdefghijklmnopqrstuvwxyz'') c of
        Some l \<Rightarrow> l
      | None \<Rightarrow> c)"

definition lower :: "string \<Rightarrow> string" where
  "lower s = map char_lower s"

text \<open>A number in decimal, zero-padded to (and cut at) \<open>w\<close> digits, as \<open>%Y %m %d %H %M %S\<close> print it.\<close>

definition digit :: "nat \<Rightarrow> char" where
  "digit n = ''0123456789'' ! (n mod 10)"

fun zero_padded :: "nat \<Rightarrow> nat \<Rightarrow> string" where
  "zero_padded 0 n = []"
| "zero_padded (Suc w) n = zero_padded w (n div 10) @ [digit n]"

definition strftime :: "datetime \<Rightarrow> string" where
  "strftime t =
     zero_padded 4 (year t) @ zero_padded 2 (month t) @ zero_padded 2 (day t)
     @ zero_padded 2 (hour t) @ zero_padded 2 (minute t) @ zero_padded 2 (second t)"

section \<open>main.py\<close>

subsection \<open>Products\<close>

text \<open>
  \<open>list_products\<close>. \<open>regex\<close> is the server's regular-expression compiler with the
  option \<open>i\<close>: \<open>None\<close> for a pattern that does not compile. A query parameter that is
  not given is \<open>None\<close>; \<open>if category:\<close> and \<open>if q:\<close> are false for the empty string too.
\<close>

definition list_products ::
  "(string \<Rightarrow> (string \<Rightarrow> bool) option) \<Rightarrow> string option \<Rightarrow> string option \<Rightarrow> bool option
   \<Rightarrow> int option \<Rightarrow> database \<Rightarrow> (error + document list) \<times> database" where
  "list_products regex q category_arg featured limit db =
     (let lim = (case limit of None \<Rightarrow> 100 | Some l \<Rightarrow> l) in
      if lim < 1 \<or> 200 < lim then (Inl RequestValidationError, db)
      else
        let filt0 = [Eq_is_active True];
            filt1 = (case category_arg of
                       Some c \<Rightarrow> if c \<noteq> [] then filt0 @ [Eq_category c] else filt0
                     | None \<Rightarrow> filt0);
            filt2 = (case featured of
                       Some f \<Rightarrow> filt1 @ [Eq_is_featured f]
                     | None \<Rightarrow> filt1)
        in
          (case q of
             None \<Rightarrow> (Inr (map to_dict (find_limit filt2 (nat lim) (db ''product''))), db)
           | Some pat \<Rightarrow>
               if pat = [] then
                 (Inr (map to_dict (find_limit filt2 (nat lim) (db ''product''))), db)
               else
                 (case regex pat of
                    None \<Rightarrow> (Inl OperationFailure, db)
                  | Some m \<Rightarrow>
                      (Inr (map to_dict
                         (find_limit (filt2 @ [Or_regex m]) (nat lim) (db ''product''))), db))))"

definition get_product :: "string \<Rightarrow> database \<Rightarrow> (error + document) \<times> database" where
  "get_product slug_arg db =
     (case find_one [Eq_slug slug_arg, Eq_is_active True] (db ''product'') of
        None \<Rightarrow> (Inl (HTTPException 404 ''Product not found''), db)
      | Some doc \<Rightarrow> (Inr (to_dict doc), db))"

text \<open>
  \<open>ProductCreate(...)\<close>: the constructor of the product model, with the keyword
  arguments in the order of the model's fields. The five samples of \<open>seed_products\<close>
  pass the model's validation (categories, durations and login methods are among the
  literals, prices are not negative), so the constructor is total on them.
\<close>

definition ProductCreate ::
  "string \<Rightarrow> string \<Rightarrow> string \<Rightarrow> string \<Rightarrow> string option \<Rightarrow> string \<Rightarrow> string list \<Rightarrow> string
   \<Rightarrow> real \<Rightarrow> real option \<Rightarrow> bool \<Rightarrow> bool \<Rightarrow> product" where
  "ProductCreate n s d sd l c ds lm pm pl f a =
     \<lparr>name = Some n, slug = s, description = d, short_description = sd, logo_url = l,
      category = c, durations = ds, login_method = lm, price_monthly = Some pm,
      price_lifetime = pl, is_featured = f, is_active = a\<rparr>"

definition samples :: "product list" where
  "samples =
     [ProductCreate ''Netflix Premium'' ''netflix-premium''
        ''Akun Netflix Premium kualitas 4K. Garansi sesuai ketentuan. Metode login: Shared Profile.''
        ''Netflix 4K, garansi, hemat.''
        (Some ''https://upload.wikimedia.org/wikipedia/commons/0/08/Netflix_2015_logo.svg'')
        ''Streaming'' [''1 Month'', ''3 Months'', ''12 Months''] ''Shared'' 35000 None True True,
      ProductCreate ''Spotify Premium'' ''spotify-premium''
        ''Spotify Premium no ads, kualitas tinggi. Metode login: Invite Family/Shared.''
        ''Musik bebas iklan.''
        (Some ''https://upload.wikimedia.org/wikipedia/commons/1/19/Spotify_logo_without_text.svg'')
        ''Music'' [''1 Month'', ''3 Months'', ''12 Months''] ''Shared'' 15000 None True True,
      ProductCreate ''Canva Pro'' ''canva-pro''
        ''Canva Pro fitur lengkap. Metode login: Invite ke team.''
        ''Desain tanpa batas.''
        (Some ''https://upload.wikimedia.org/wikipedia/commons/a/af/Canva_icon_2021.svg'')
        ''Design'' [''1 Month'', ''3 Months'', ''12 Months''] ''Invite'' 20000 None True True,
      ProductCreate ''ChatGPT Plus'' ''chatgpt-plus''
        ''Akses GPT-4/Plus sesuai ketentuan penyedia. Metode: Shared.''
        ''AI asisten premium.''
        (Some ''https://upload.wikimedia.org/wikipedia/commons/0/04/ChatGPT_logo.svg'')
        ''AI'' [''1 Month'', ''3 Months''] ''Shared'' 120000 None False True,
      ProductCreate ''YouTube Premium'' ''youtube-premium''
        ''YouTube Premium bebas iklan. Metode: Invite Family.''
        ''Streaming tanpa iklan.''
        (Some ''https://upload.wikimedia.org/wikipedia/commons/e/ef/Youtube_logo.png'')
        ''Streaming'' [''1 Month'', ''3 Months'', ''12 Months''] ''Invite'' 20000 None False True]"

record seed_response =
  seeded :: bool
  seed_message :: "string option"
  seed_count :: "nat option"

text \<open>
  The loop \<open>for p in samples: create_document("product", p)\<close>; \<open>oid_of i\<close> is the
  ObjectId the driver generates for the \<open>i\<close>-th insertion.
\<close>

fun seed_loop :: "(nat \<Rightarrow> string) \<Rightarrow> nat \<Rightarrow> product list \<Rightarrow> database \<Rightarrow> database" where
  "seed_loop oid_of i [] db = db"
| "seed_loop oid_of i (p # ps) db =
     seed_loop oid_of (Suc i) ps (snd (create_document ''product'' (ProductBody p) (oid_of i) db))"

definition seed_products :: "(nat \<Rightarrow> string) \<Rightarrow> database \<Rightarrow> seed_response \<times> database" where
  "seed_products oid_of db =
     (let count = length (db ''product'') in
      if count > 0 then
        (\<lparr>seeded = False, seed_message = Some ''Products already exist'', seed_count = None\<rparr>, db)
      else
        (\<lparr>seeded = True, seed_message = None, seed_count = Some (length samples)\<rparr>,
         seed_loop oid_of 0 samples db))"

subsection \<open>Orders and payments\<close>

text \<open>The request body \<open>OrderCreate\<close>; all its fields are plain strings.\<close>

record OrderCreate =
  product_slug :: string
  req_package :: string
  req_buyer_name :: string
  req_email :: string
  req_whatsapp :: string
  req_payment_method :: string
  req_delivery_channel :: string

definition generate_order_code :: "datetime \<Rightarrow> string" where
  "generate_order_code now = ''NS-'' @ strftime now"

text \<open>The literals of the \<open>Order\<close> model.\<close>

definition package_literals :: "string list" where
  "package_literals = [''1 Month'', ''3 Months'', ''6 Months'', ''12 Months'', ''Lifetime'']"

definition payment_method_literals :: "string list" where
  "payment_method_literals = [''QRIS'', ''Bank Transfer'', ''E-Wallet'']"

definition status_literals :: "string list" where
  "status_literals = [''pending'', ''paid'', ''delivered'', ''failed'']"

definition delivery_channel_literals :: "string list" where
  "delivery_channel_literals = [''email'', ''whatsapp'', ''both'']"

text \<open>
  \<open>OrderSchema(...)\<close>: the constructor of the \<open>Order\<close> model with the keyword
  arguments \<open>create_order\<close> gives it. pydantic raises \<open>ValidationError\<close> when a field
  does not fit its annotation: \<open>product_name\<close> must be a string (not \<open>None\<close>),
  \<open>price\<close> at least 0, \<open>email\<close> an address the e-mail validator accepts
  (\<open>validate_email\<close> returns the normalised address, or \<open>None\<close>), and the four
  \<open>Literal\<close> fields among their literals. The fields not given take their defaults.
\<close>

definition OrderSchema ::
  "(string \<Rightarrow> string option) \<Rightarrow> string \<Rightarrow> string option \<Rightarrow> string \<Rightarrow> real \<Rightarrow> string \<Rightarrow> string
   \<Rightarrow> string \<Rightarrow> string \<Rightarrow> string \<Rightarrow> string \<Rightarrow> string \<Rightarrow> error + order" where
  "OrderSchema validate_email pid pname pkg pr bname mail wa pm st code chan =
     (case (pname, validate_email mail) of
        (Some pn, Some normalised) \<Rightarrow>
          if pkg \<in> set package_literals \<and> 0 \<le> pr \<and> pm \<in> set payment_method_literals
             \<and> st \<in> set status_literals \<and> chan \<in> set delivery_channel_literals
          then Inr \<lparr>product_id = pid, product_name = pn, package = pkg, price = pr,
                    buyer_name = bname, email = normalised, whatsapp = wa, payment_method = pm,
                    status = st, order_code = Some code, delivery_channel = chan,
                    delivery_note = None, delivered_payload = None, updated_at = None\<rparr>
          else Inl ValidationError
      | _ \<Rightarrow> Inl ValidationError)"

text \<open>The price table of \<open>create_order\<close> (\<open>{...}.get(payload.package)\<close>).\<close>

definition multiplier :: "string \<Rightarrow> int option" where
  "multiplier pkg =
     map_of [(''1 Month'', 1), (''3 Months'', 3), (''6 Months'', 6), (''12 Months'', 12),
             (''Lifetime'', 20)] pkg"

text \<open>The mock payment instructions (\<open>{...}.get(payload.payment_method, default)\<close>).\<close>

definition payment_instructions :: "string \<Rightarrow> (string \<times> string) list" where
  "payment_instructions pm =
     (case map_of
        [(''QRIS'',
            [(''type'', ''qris''),
             (''note'', ''Scan QR berikut di aplikasi e-wallet Anda''),
             (''qr_image'',
              ''https://api.qrserver.com/v1/create-qr-code/?size=220x220&data=NASIR-STORE-DEMO'')]),
         (''Bank Transfer'',
            [(''type'', ''bank''), (''bank'', ''BCA''), (''account_name'', ''NASIR STORE''),
             (''account_number'', ''1234567890'')]),
         (''E-Wallet'',
            [(''type'', ''ewallet''), (''provider'', ''OVO/DANA/GoPay''),
             (''number'', ''0812-3456-7890''), (''name'', ''NASIR STORE'')])] pm of
        Some instr \<Rightarrow> instr
      | None \<Rightarrow> [(''type'', ''info''), (''note'', ''Follow admin instruction'')])"

record order_response =
  order_id :: string
  r_order_code :: string
  r_status :: string
  amount :: real
  r_product_name :: "string option"
  r_package :: string
  payment :: "(string \<times> string) list"

text \<open>
  \<open>create_order\<close>. \<open>now\<close> is what \<open>datetime.utcnow()\<close> returns, \<open>oid\<close> the ObjectId
  generated for the inserted order.
\<close>

definition create_order ::
  "(string \<Rightarrow> string option) \<Rightarrow> datetime \<Rightarrow> string \<Rightarrow> OrderCreate \<Rightarrow> database
   \<Rightarrow> (error + order_response) \<times> database" where
  "create_order validate_email now oid payload db =
     (case find_one [Eq_slug (product_slug payload)] (db ''product'') of
        None \<Rightarrow> (Inl (HTTPException 404 ''Product not found''), db)
      | Some product_doc \<Rightarrow>
          let base = (case get_price_monthly product_doc of None \<Rightarrow> 0 | Some b \<Rightarrow> b) in
          (case multiplier (req_package payload) of
             None \<Rightarrow> (Inl (HTTPException 400 ''Invalid package''), db)
           | Some mult \<Rightarrow>
               let pr = base * real_of_int mult;
                   code = generate_order_code now
               in
                 (case OrderSchema validate_email (str_id (doc_id product_doc)) (get_name product_doc)
                         (req_package payload) pr (req_buyer_name payload) (req_email payload)
                         (req_whatsapp payload) (req_payment_method payload) ''pending'' code
                         (req_delivery_channel payload) of
                    Inl e \<Rightarrow> (Inl e, db)
                  | Inr new_order \<Rightarrow>
                      let (inserted_id, db') = create_document ''order'' (OrderBody new_order) oid db
                      in (Inr \<lparr>order_id = inserted_id, r_order_code = code,
                               r_status = ''pending'', amount = pr,
                               r_product_name = get_name product_doc,
                               r_package = req_package payload,
                               payment = payment_instructions (req_payment_method payload)\<rparr>,
                          db'))))"

definition get_order :: "string \<Rightarrow> database \<Rightarrow> (error + document) \<times> database" where
  "get_order code db =
     (case find_one [Eq_order_code code] (db ''order'') of
        None \<Rightarrow> (Inl (HTTPException 404 ''Order not found''), db)
      | Some doc \<Rightarrow> (Inr (to_dict doc), db))"

record PaymentNotify =
  pn_order_code :: string
  pn_status :: string

record notify_response =
  updated :: bool
  n_status :: string
  n_delivered_payload :: "credentials option"

definition payment_notify ::
  "datetime \<Rightarrow> PaymentNotify \<Rightarrow> database \<Rightarrow> (error + notify_response) \<times> database" where
  "payment_notify now payload db =
     (case find_one [Eq_order_code (pn_order_code payload)] (db ''order'') of
        None \<Rightarrow> (Inl (HTTPException 404 ''Order not found''), db)
      | Some order_doc \<Rightarrow>
          let new_status = (if pn_status payload = ''paid'' then ''paid'' else ''failed'') in
          if new_status = ''paid'' then
            let delivery_payload =
                  \<lparr>username = ''demo_'' @ lower (pn_order_code payload) @ ''@nasirstore.io'',
                   password = ''AutoGenerated123!'',
                   cred_note = ''Gunakan kredensial ini sesuai ketentuan. Ini demo.''\<rparr>
            in
              (Inr \<lparr>updated = True, n_status = ''delivered'',
                    n_delivered_payload = Some delivery_payload\<rparr>,
               db(''order'' :=
                    update_one [Eq_id (doc_id order_doc)]
                      (set_fields [Set_status ''delivered'',
                                   Set_delivered_payload delivery_payload,
                                   Set_updated_at now])
                      (db ''order'')))
          else
            (Inr \<lparr>updated = True, n_status = new_status, n_delivered_payload = None\<rparr>,
             db(''order'' :=
                  update_one [Eq_id (doc_id order_doc)]
                    (set_fields [Set_status new_status, Set_updated_at now])
                    (db ''order''))))"

subsection \<open>Testimonials and contact\<close>

text \<open>
  FastAPI validates the request body against the model before the handler runs:
  a testimonial's rating lies between 1 and 5, a contact message's e-mail is an address
  (the handler receives the normalised one).
\<close>

record insert_response =
  inserted_id :: string

definition create_testimonial ::
  "string \<Rightarrow> testimonial \<Rightarrow> database \<Rightarrow> (error + insert_response) \<times> database" where
  "create_testimonial oid request_body db =
     (if 1 \<le> rating request_body \<and> rating request_body \<le> 5 then
        let (new_id, db') = create_document ''testimonial'' (TestimonialBody request_body) oid db
        in (Inr \<lparr>inserted_id = new_id\<rparr>, db')
      else (Inl RequestValidationError, db))"

definition create_contact ::
  "(string \<Rightarrow> string option) \<Rightarrow> string \<Rightarrow> contact_message \<Rightarrow> database
   \<Rightarrow> (error + insert_response) \<times> database" where
  "create_contact validate_email oid request_body db =
     (case validate_email (c_email request_body) of
        None \<Rightarrow> (Inl RequestValidationError, db)
      | Some normalised \<Rightarrow>
          let (new_id, db') =
                create_document ''contactmessage''
                  (ContactBody (request_body\<lparr>c_email := normalised\<rparr>)) oid db
          in (Inr \<lparr>inserted_id = new_id\<rparr>, db'))"

section \<open>Auxiliary definitions for the properties\<close>

text \<open>
  A product document without the two fields \<open>create_order\<close> is claimed not to read:
  two product collections that agree after \<open>unpriced\<close> differ at most in
  \<open>price_lifetime\<close> and \<open>durations\<close>.
\<close>

definition unpriced :: "document \<Rightarrow> document" where
  "unpriced d =
     (case body d of
        ProductBody p \<Rightarrow> d\<lparr>body := ProductBody (p\<lparr>price_lifetime := None, durations := []\<rparr>)\<rparr>
      | _ \<Rightarrow> d)"

subsection \<open>Example data\<close>

definition example_clock :: datetime where
  "example_clock = \<lparr>year = 2024, month = 3, day = 7, hour = 1, minute = 2, second = 3\<rparr>"

definition canva_inactive :: document where
  "canva_inactive =
     \<lparr>doc_id = ObjectId ''650000000000000000000001'',
      body = ProductBody
        \<lparr>name = Some ''Canva Pro'', slug = ''canva-pro'',
         description = ''Canva Pro fitur lengkap.'', short_description = ''Desain tanpa batas.'',
         logo_url = None, category = ''Design'', durations = [''1 Month'', ''3 Months''],
         login_method = ''Invite'', price_monthly = Some 20000, price_lifetime = Some 300000,
         is_featured = True, is_active = False\<rparr>\<rparr>"

definition netflix_active :: document where
  "netflix_active =
     \<lparr>doc_id = ObjectId ''650000000000000000000002'',
      body = ProductBody
        \<lparr>name = Some ''Netflix Premium'', slug = ''netflix-premium'',
         description = ''Akun Netflix Premium kualitas 4K.'',
         short_description = ''Netflix 4K, garansi, hemat.'',
         logo_url = None, category = ''Streaming'',
         durations = [''1 Month'', ''3 Months'', ''12 Months''],
         login_method = ''Shared'', price_monthly = Some 35000, price_lifetime = None,
         is_featured = True, is_active = True\<rparr>\<rparr>"

definition example_db :: database where
  "example_db = (\<lambda>_. [])(''product'' := [canva_inactive, netflix_active])"

definition example_request :: OrderCreate where
  "example_request =
     \<lparr>product_slug = ''netflix-premium'', req_package = ''3 Months'', req_buyer_name = ''Ani'',
      req_email = ''ani@example.com'', req_whatsapp = ''081234567890'',
      req_payment_method = ''QRIS'', req_delivery_channel = ''email''\<rparr>"

definition canva_request :: OrderCreate where
  "canva_request =
     \<lparr>product_slug = ''canva-pro'', req_package = ''Lifetime'', req_buyer_name = ''Budi'',
      req_email = ''budi@example.com'', req_whatsapp = ''089876543210'',
      req_payment_method = ''QRIS'', req_delivery_channel = ''whatsapp''\<rparr>"

definition cash_request :: OrderCreate where
  "cash_request =
     \<lparr>product_slug = ''canva-pro'', req_package = ''1 Month'', req_buyer_name = ''Budi'',
      req_email = ''budi@example.com'', req_whatsapp = ''089876543210'',
      req_payment_method = ''Cash'', req_delivery_channel = ''email''\<rparr>"

definition pending_order :: document where
  "pending_order =
     \<lparr>doc_id = ObjectId ''65000000000000000000000b'',
      body = OrderBody
        \<lparr>product_id = ''650000000000000000000002'', product_name = ''Netflix Premium'',
         package = ''3 Months'', price = 105000, buyer_name = ''Ani'',
         email = ''ani@example.com'', whatsapp = ''081234567890'', payment_method = ''QRIS'',
         status = ''pending'', order_code = Some ''NS-20240307010203'',
         delivery_channel = ''email'', delivery_note = None, delivered_payload = None,
         updated_at = None\<rparr>\<rparr>"

definition orders_db :: database where
  "orders_db = example_db(''order'' := [pending_order])"

definition paid_notice :: PaymentNotify where
  "paid_notice = \<lparr>pn_order_code = ''NS-20240307010203'', pn_status = ''paid''\<rparr>"

definition expired_notice :: PaymentNotify where
  "expired_notice = \<lparr>pn_order_code = ''NS-20240307010203'', pn_status = ''expired''\<rparr>"

text \<open>
  An example regular-expression engine for the example runs: it knows literal patterns
  only (a pattern with a parenthesis does not compile) and searches them without regard
  to case.
\<close>

fun starts_with :: "string \<Rightarrow> string \<Rightarrow> bool" where
  "starts_with [] s = True"
| "starts_with (p # ps) [] = False"
| "starts_with (p # ps) (c # cs) = (p = c \<and> starts_with ps cs)"

fun contains :: "string \<Rightarrow> string \<Rightarrow> bool" where
  "contains pat [] = (pat = [])"
| "contains pat (c # cs) = (starts_with pat (c # cs) \<or> contains pat cs)"

definition literal_regex :: "string \<Rightarrow> (string \<Rightarrow> bool) option" where
  "literal_regex pat =
     (if CHR ''('' \<in> set pat then None else Some (\<lambda>s. contains (lower pat) (lower s)))"

definition example_testimonial :: testimonial where
  "example_testimonial =
     \<lparr>t_name = ''Ani'', rating = 5, comment = ''Cepat dan aman.'',
      t_product_slug = Some ''netflix-premium''\<rparr>"

definition example_contact :: contact_message where
  "example_contact =
     \<lparr>c_name = ''Budi'', c_email = ''budi@example.com'', c_whatsapp = None,
      message = ''Apakah ada paket tahunan?''\<rparr>"

subsection \<open>The API as a whole\<close>

text \<open>
  A request to one of the endpoints of main.py that use the database, and what the
  environment supplies while it is handled. \<open>api_step\<close> is the database after the
  request. The endpoints left out (\<open>read_root\<close>, \<open>test_database\<close>,
  \<open>list_testimonials\<close>, \<open>get_schema_info\<close>) write nothing.
\<close>

datatype request =
    ListProducts "string option" "string option" "bool option" "int option"
  | GetProduct string
  | SeedProducts
  | CreateOrder OrderCreate
  | GetOrder string
  | NotifyPayment PaymentNotify
  | CreateTestimonial testimonial
  | CreateContact contact_message

record environment =
  env_now :: datetime
  env_oid :: "nat \<Rightarrow> string"
  env_validate_email :: "string \<Rightarrow> string option"
  env_regex :: "string \<Rightarrow> (string \<Rightarrow> bool) option"

fun api_step :: "environment \<Rightarrow> request \<Rightarrow> database \<Rightarrow> database" where
  "api_step env (ListProducts q c f l) db = snd (list_products (env_regex env) q c f l db)"
| "api_step env (GetProduct s) db = snd (get_product s db)"
| "api_step env SeedProducts db = snd (seed_products (env_oid env) db)"
| "api_step env (CreateOrder payload) db =
     snd (create_order (env_validate_email env) (env_now env) (env_oid env 0) payload db)"
| "api_step env (GetOrder code) db = snd (get_order code db)"
| "api_step env (NotifyPayment payload) db = snd (payment_notify (env_now env) payload db)"
| "api_step env (CreateTestimonial t) db = snd (create_testimonial (env_oid env 0) t db)"
| "api_step env (CreateContact m) db =
     snd (create_contact (env_validate_email env) (env_oid env 0) m db)"

definition example_env :: environment where
  "example_env =
     \<lparr>env_now = example_clock, env_oid = (\<lambda>i. zero_padded 24 (i + 100)),
      env_validate_email = Some, env_regex = literal_regex\<rparr>"

subsection \<open>Two orders with one order code\<close>

text \<open>
  Two orders created through \<open>create_order\<close> within the same second: the clock is read
  with a resolution of one second by \<open>generate_order_code\<close>, so both get the same
  \<open>order_code\<close>; their \<open>_id\<close>s differ.
\<close>

definition budi_request :: OrderCreate where
  "budi_request =
     \<lparr>product_slug = ''netflix-premium'', req_package = ''1 Month'', req_buyer_name = ''Budi'',
      req_email = ''budi@example.com'', req_whatsapp = ''089876543210'',
      req_payment_method = ''E-Wallet'', req_delivery_channel = ''whatsapp''\<rparr>"

definition ani_order :: document where
  "ani_order =
     \<lparr>doc_id = ObjectId ''65000000000000000000000e'',
      body = OrderBody
        \<lparr>product_id = ''650000000000000000000002'', product_name = ''Netflix Premium'',
         package = ''3 Months'', price = 105000, buyer_name = ''Ani'',
         email = ''ani@example.com'', whatsapp = ''081234567890'', payment_method = ''QRIS'',
         status = ''pending'', order_code = Some ''NS-20240307010203'',
         delivery_channel = ''email'', delivery_note = None, delivered_payload = None,
         updated_at = None\<rparr>\<rparr>"

definition budi_order :: document where
  "budi_order =
     \<lparr>doc_id = ObjectId ''65000000000000000000000f'',
      body = OrderBody
        \<lparr>product_id = ''650000000000000000000002'', product_name = ''Netflix Premium'',
         package = ''1 Month'', price = 35000, buyer_name = ''Budi'',
         email = ''budi@example.com'', whatsapp = ''089876543210'',
         payment_method = ''E-Wallet'',
         status = ''pending'', order_code = Some ''NS-20240307010203'',
         delivery_channel = ''whatsapp'', delivery_note = None, delivered_payload = None,
         updated_at = None\<rparr>\<rparr>"

definition twin_orders_db :: database where
  "twin_orders_db = example_db(''order'' := [ani_order, budi_order])"

definition demo_credentials :: credentials where
  "demo_credentials =
     \<lparr>username = ''demo_ns-20240307010203@nasirstore.io'', password = ''AutoGenerated123!'',
      cred_note = ''Gunakan kredensial ini sesuai ketentuan. Ini demo.''\<rparr>"

text \<open>The status and the delivered payload of a stored order document.\<close>

fun get_status :: "document \<Rightarrow> string option" where
  "get_status d = (case body d of OrderBody ord \<Rightarrow> Some (status ord) | _ \<Rightarrow> None)"

fun get_delivered_payload :: "document \<Rightarrow> credentials option" where
  "get_delivered_payload d =
     (case body d of OrderBody ord \<Rightarrow> delivered_payload ord | _ \<Rightarrow> None)"

section \<open>Properties\<close>

subsection \<open>Queries\<close>

lemma find_one_Some:
  "find_one filt ds = Some d \<Longrightarrow> d \<in> set ds \<and> matches_all filt d"
  by (induction ds) (auto split: if_splits)

lemma find_one_None:
  "(find_one filt ds = None) = (\<forall>d\<in>set ds. \<not> matches_all filt d)"
  by (induction ds) auto

lemma matches_slug:
  "matches_all [Eq_slug s] d = (\<exists>p. body d = ProductBody p \<and> slug p = s)"
  by (auto simp: matches_all_def split: body.splits)

lemma matches_slug_active:
  "matches_all [Eq_slug s, Eq_is_active True] d =
     (\<exists>p. body d = ProductBody p \<and> slug p = s \<and> is_active p)"
  by (auto simp: matches_all_def split: body.splits)

subsection \<open>\<open>get_product\<close>\<close>

text \<open>
  C5. For every slug and database, \<open>get_product\<close> either returns a stored product
  document that has this slug and \<open>is_active = True\<close>, its \<open>_id\<close> replaced by the
  string of the ObjectId, or no stored product with this slug is active (none has the
  slug, or those that have it are inactive) and it raises HTTP 404 "Product not found".
  In both cases the database afterwards is the database before.
\<close>

theorem get_product_exactly_when_active:
  "(\<exists>d\<in>set (db ''product''). \<exists>p. body d = ProductBody p \<and> slug p = s \<and> is_active p
        \<and> get_product s db = (Inr \<lparr>doc_id = IdStr (str_id (doc_id d)), body = body d\<rparr>, db))
   \<or> ((\<forall>d\<in>set (db ''product''). \<forall>p. body d = ProductBody p \<and> slug p = s \<longrightarrow> \<not> is_active p)
        \<and> get_product s db = (Inl (HTTPException 404 ''Product not found''), db))"
proof (cases "find_one [Eq_slug s, Eq_is_active True] (db ''product'')")
  case None
  then have "\<forall>d\<in>set (db ''product''). \<not> matches_all [Eq_slug s, Eq_is_active True] d"
    by (simp add: find_one_None)
  then have "\<forall>d\<in>set (db ''product''). \<forall>p. body d = ProductBody p \<and> slug p = s \<longrightarrow> \<not> is_active p"
    by (simp add: matches_slug_active)
  moreover have "get_product s db = (Inl (HTTPException 404 ''Product not found''), db)"
    using None by (simp add: get_product_def)
  ultimately show ?thesis by blast
next
  case (Some d)
  then have in_set: "d \<in> set (db ''product'')"
    and m: "matches_all [Eq_slug s, Eq_is_active True] d"
    using find_one_Some by blast+
  from m obtain p where p: "body d = ProductBody p" "slug p = s" "is_active p"
    by (auto simp: matches_slug_active)
  have "get_product s db = (Inr \<lparr>doc_id = IdStr (str_id (doc_id d)), body = body d\<rparr>, db)"
    using Some by (simp add: get_product_def to_dict_def)
  with in_set p show ?thesis by blast
qed

text \<open>
  At the example database: the inactive product's slug gives 404, the active product's
  slug gives its document.
\<close>

theorem get_product_exactly_when_active_witness:
  "get_product ''canva-pro'' example_db
     = (Inl (HTTPException 404 ''Product not found''), example_db)
   \<and> get_product ''netflix-premium'' example_db
     = (Inr \<lparr>doc_id = IdStr ''650000000000000000000002'', body = body netflix_active\<rparr>,
        example_db)"
proof -
  have prods: "example_db ''product'' = [canva_inactive, netflix_active]"
    by (simp add: example_db_def)
  have canva: "\<exists>p. body canva_inactive = ProductBody p \<and> slug p = ''canva-pro'' \<and> \<not> is_active p"
    by (simp add: canva_inactive_def)
  have netflix: "\<exists>p. body netflix_active = ProductBody p \<and> slug p = ''netflix-premium''
      \<and> is_active p"
    by (simp add: netflix_active_def)
  have ids: "str_id (doc_id netflix_active) = ''650000000000000000000002''"
    by (simp add: netflix_active_def)
  from get_product_exactly_when_active [of example_db "''canva-pro''"] canva netflix
  have first: "get_product ''canva-pro'' example_db
     = (Inl (HTTPException 404 ''Product not found''), example_db)"
    unfolding prods by auto
  from get_product_exactly_when_active [of example_db "''netflix-premium''"] canva netflix
  have "get_product ''netflix-premium'' example_db
     = (Inr \<lparr>doc_id = IdStr (str_id (doc_id netflix_active)), body = body netflix_active\<rparr>,
        example_db)"
    unfolding prods by auto
  with first ids show ?thesis by simp
qed

subsection \<open>\<open>create_order\<close>\<close>

lemma multiplier_table:
  "multiplier pkg =
     (if pkg = ''1 Month'' then Some 1
      else if pkg = ''3 Months'' then Some 3
      else if pkg = ''6 Months'' then Some 6
      else if pkg = ''12 Months'' then Some 12
      else if pkg = ''Lifetime'' then Some 20
      else None)"
  by (simp add: multiplier_def)

lemma create_order_Inr:
  assumes "create_order ve now oid payload db = (Inr resp, db')"
  shows "\<exists>product_doc m new_order.
           find_one [Eq_slug (product_slug payload)] (db ''product'') = Some product_doc
         \<and> multiplier (req_package payload) = Some m
         \<and> OrderSchema ve (str_id (doc_id product_doc)) (get_name product_doc)
               (req_package payload)
               ((case get_price_monthly product_doc of None \<Rightarrow> 0 | Some b \<Rightarrow> b) * real_of_int m)
               (req_buyer_name payload) (req_email payload) (req_whatsapp payload)
               (req_payment_method payload) ''pending'' (generate_order_code now)
               (req_delivery_channel payload) = Inr new_order
         \<and> resp = \<lparr>order_id = oid, r_order_code = generate_order_code now,
                    r_status = ''pending'',
                    amount = (case get_price_monthly product_doc of None \<Rightarrow> 0 | Some b \<Rightarrow> b)
                             * real_of_int m,
                    r_product_name = get_name product_doc,
                    r_package = req_package payload,
                    payment = payment_instructions (req_payment_method payload)\<rparr>
         \<and> db' = db(''order'' := db ''order'' @ [\<lparr>doc_id = ObjectId oid, body = OrderBody new_order\<rparr>])"
  using assms
  by (auto simp: create_order_def Let_def create_document_def
           split: option.splits sum.splits)

lemma OrderSchema_Inr:
  "OrderSchema ve pid pname pkg pr bname mail wa pm st code chan = Inr new_order \<Longrightarrow>
     price new_order = pr \<and> status new_order = st \<and> package new_order = pkg
     \<and> payment_method new_order = pm \<and> product_id new_order = pid
     \<and> pname = Some (product_name new_order) \<and> order_code new_order = Some code
     \<and> 0 \<le> pr \<and> pm \<in> set payment_method_literals \<and> ve mail = Some (email new_order)
     \<and> chan \<in> set delivery_channel_literals \<and> delivery_channel new_order = chan
     \<and> delivered_payload new_order = None \<and> updated_at new_order = None"
  by (auto simp: OrderSchema_def split: option.splits if_splits)

lemma product_unpriced_fields:
  "p\<lparr>price_lifetime := None, durations := []\<rparr> = q\<lparr>price_lifetime := None, durations := []\<rparr>
   \<Longrightarrow> slug p = slug q \<and> name p = name q \<and> price_monthly p = price_monthly q"
  by (cases p; cases q) simp

lemma unpriced_fields:
  "unpriced d1 = unpriced d2 \<Longrightarrow>
     doc_id d1 = doc_id d2 \<and> get_slug d1 = get_slug d2 \<and> get_name d1 = get_name d2
     \<and> get_price_monthly d1 = get_price_monthly d2"
  by (cases d1; cases d2)
     (auto simp: unpriced_def split: body.splits dest: product_unpriced_fields)

lemma find_one_slug_unpriced:
  "map unpriced ds1 = map unpriced ds2 \<Longrightarrow>
     map_option unpriced (find_one [Eq_slug s] ds1) = map_option unpriced (find_one [Eq_slug s] ds2)"
proof (induction ds1 arbitrary: ds2)
  case Nil
  then show ?case by simp
next
  case (Cons d ds1)
  then obtain e ds2' where ds2: "ds2 = e # ds2'" and de: "unpriced d = unpriced e"
    and rest: "map unpriced ds1 = map unpriced ds2'"
    by auto
  have same: "matches_all [Eq_slug s] d = matches_all [Eq_slug s] e"
    using unpriced_fields [OF de] by (simp add: matches_all_def)
  show ?case
    using same de Cons.IH [OF rest] by (simp add: ds2)
qed

lemma create_order_unpriced:
  assumes prods: "map unpriced (db1 ''product'') = map unpriced (db2 ''product'')"
    and orders: "db1 ''order'' = db2 ''order''"
  shows "fst (create_order ve now oid payload db1) = fst (create_order ve now oid payload db2)
       \<and> snd (create_order ve now oid payload db1) ''order''
         = snd (create_order ve now oid payload db2) ''order''"
proof (cases "find_one [Eq_slug (product_slug payload)] (db1 ''product'')")
  case None
  with find_one_slug_unpriced [OF prods, of "product_slug payload"]
  have "find_one [Eq_slug (product_slug payload)] (db2 ''product'') = None"
    by (cases "find_one [Eq_slug (product_slug payload)] (db2 ''product'')") auto
  with None orders show ?thesis by (simp add: create_order_def)
next
  case (Some d1)
  with find_one_slug_unpriced [OF prods, of "product_slug payload"]
  obtain d2 where d2: "find_one [Eq_slug (product_slug payload)] (db2 ''product'') = Some d2"
    and eq: "unpriced d1 = unpriced d2"
    by (cases "find_one [Eq_slug (product_slug payload)] (db2 ''product'')") auto
  note f = unpriced_fields [OF eq]
  show ?thesis
    using Some d2 f orders
    by (simp add: create_order_def Let_def create_document_def split: option.splits sum.splits)
qed

text \<open>
  C1. When the request's \<open>product_slug\<close> finds a stored product: a package outside the
  table gives HTTP 400 "Invalid package" and the database stays; when \<open>create_order\<close>
  returns a response, the package is in the table, and the \<open>amount\<close> of the response and
  the \<open>price\<close> of the one order document appended to the collection both are the
  product's \<open>price_monthly\<close> (0 when absent) times the table's value; the table maps
  "1 Month" to 1, "3 Months" to 3, "6 Months" to 6, "12 Months" to 12, "Lifetime" to 20
  and nothing else; and the response and the order collection afterwards are the same
  for any product collection that differs only in \<open>price_lifetime\<close> and \<open>durations\<close>.
\<close>

theorem create_order_price:
  assumes found: "find_one [Eq_slug (product_slug payload)] (db ''product'') = Some product_doc"
  shows "\<exists>p. body product_doc = ProductBody p \<and> slug p = product_slug payload
    \<and> (multiplier (req_package payload) = None \<longrightarrow>
          create_order ve now oid payload db = (Inl (HTTPException 400 ''Invalid package''), db))
    \<and> (\<forall>resp db'. create_order ve now oid payload db = (Inr resp, db') \<longrightarrow>
          (\<exists>m new_order. multiplier (req_package payload) = Some m
             \<and> amount resp = (case price_monthly p of None \<Rightarrow> 0 | Some b \<Rightarrow> b) * real_of_int m
             \<and> price new_order = amount resp
             \<and> db' = db(''order'' := db ''order''
                          @ [\<lparr>doc_id = ObjectId oid, body = OrderBody new_order\<rparr>])))
    \<and> multiplier (req_package payload) =
          (if req_package payload = ''1 Month'' then Some 1
           else if req_package payload = ''3 Months'' then Some 3
           else if req_package payload = ''6 Months'' then Some 6
           else if req_package payload = ''12 Months'' then Some 12
           else if req_package payload = ''Lifetime'' then Some 20
           else None)
    \<and> (\<forall>db2. map unpriced (db2 ''product'') = map unpriced (db ''product'')
               \<and> db2 ''order'' = db ''order'' \<longrightarrow>
            fst (create_order ve now oid payload db2) = fst (create_order ve now oid payload db)
          \<and> snd (create_order ve now oid payload db2) ''order''
            = snd (create_order ve now oid payload db) ''order'')"
proof -
  from find_one_Some [OF found] obtain p
    where p: "body product_doc = ProductBody p" "slug p = product_slug payload"
    by (auto simp: matches_slug)
  have bad: "multiplier (req_package payload) = None \<longrightarrow>
      create_order ve now oid payload db = (Inl (HTTPException 400 ''Invalid package''), db)"
    using found by (simp add: create_order_def)
  have good: "\<forall>resp db'. create_order ve now oid payload db = (Inr resp, db') \<longrightarrow>
          (\<exists>m new_order. multiplier (req_package payload) = Some m
             \<and> amount resp = (case price_monthly p of None \<Rightarrow> 0 | Some b \<Rightarrow> b) * real_of_int m
             \<and> price new_order = amount resp
             \<and> db' = db(''order'' := db ''order''
                          @ [\<lparr>doc_id = ObjectId oid, body = OrderBody new_order\<rparr>]))"
  proof (intro allI impI)
    fix resp db'
    assume run: "create_order ve now oid payload db = (Inr resp, db')"
    from create_order_Inr [OF run] found obtain m new_order where
      m: "multiplier (req_package payload) = Some m"
      and schema: "OrderSchema ve (str_id (doc_id product_doc)) (get_name product_doc)
               (req_package payload)
               ((case get_price_monthly product_doc of None \<Rightarrow> 0 | Some b \<Rightarrow> b) * real_of_int m)
               (req_buyer_name payload) (req_email payload) (req_whatsapp payload)
               (req_payment_method payload) ''pending'' (generate_order_code now)
               (req_delivery_channel payload) = Inr new_order"
      and resp: "amount resp
          = (case get_price_monthly product_doc of None \<Rightarrow> 0 | Some b \<Rightarrow> b) * real_of_int m"
      and db': "db' = db(''order'' := db ''order''
                          @ [\<lparr>doc_id = ObjectId oid, body = OrderBody new_order\<rparr>])"
      by auto
    from OrderSchema_Inr [OF schema] resp have "price new_order = amount resp" by simp
    moreover from resp p
    have "amount resp = (case price_monthly p of None \<Rightarrow> 0 | Some b \<Rightarrow> b) * real_of_int m"
      by simp
    ultimately show "\<exists>m new_order. multiplier (req_package payload) = Some m
             \<and> amount resp = (case price_monthly p of None \<Rightarrow> 0 | Some b \<Rightarrow> b) * real_of_int m
             \<and> price new_order = amount resp
             \<and> db' = db(''order'' := db ''order''
                          @ [\<lparr>doc_id = ObjectId oid, body = OrderBody new_order\<rparr>])"
      using m db' by blast
  qed
  have indep: "\<forall>db2. map unpriced (db2 ''product'') = map unpriced (db ''product'')
               \<and> db2 ''order'' = db ''order'' \<longrightarrow>
            fst (create_order ve now oid payload db2) = fst (create_order ve now oid payload db)
          \<and> snd (create_order ve now oid payload db2) ''order''
            = snd (create_order ve now oid payload db) ''order''"
    using create_order_unpriced by blast
  show ?thesis
    by (intro exI [of _ p] conjI) (rule p bad good indep multiplier_table)+
qed

text \<open>
  At the example database: Netflix Premium (35000 a month) for "3 Months" is priced
  105000 in the response and in the stored order.
\<close>

theorem create_order_price_witness:
  "find_one [Eq_slug (product_slug example_request)] (example_db ''product'')
     = Some netflix_active
   \<and> (\<exists>resp db' new_order.
         create_order Some example_clock ''650000000000000000000009'' example_request example_db
           = (Inr resp, db')
       \<and> amount resp = 105000 \<and> price new_order = 105000
       \<and> db' ''order'' = [\<lparr>doc_id = ObjectId ''650000000000000000000009'',
                             body = OrderBody new_order\<rparr>])"
proof -
  have found: "find_one [Eq_slug (product_slug example_request)] (example_db ''product'')
     = Some netflix_active"
    by (simp add: example_request_def example_db_def canva_inactive_def netflix_active_def
          matches_all_def)
  obtain resp db' where run:
    "create_order Some example_clock ''650000000000000000000009'' example_request example_db
       = (Inr resp, db')"
    by (simp add: create_order_def Let_def multiplier_def OrderSchema_def matches_all_def
          create_document_def example_request_def example_db_def canva_inactive_def
          netflix_active_def package_literals_def payment_method_literals_def
          status_literals_def delivery_channel_literals_def)
  from create_order_price [of example_request example_db netflix_active Some example_clock
      "''650000000000000000000009''", OF found] run
  obtain p m new_order where
    p: "body netflix_active = ProductBody p"
    and m: "multiplier (req_package example_request) = Some m"
    and a: "amount resp = (case price_monthly p of None \<Rightarrow> 0 | Some b \<Rightarrow> b) * real_of_int m"
    and pr: "price new_order = amount resp"
    and db': "db' = example_db(''order'' := example_db ''order''
                @ [\<lparr>doc_id = ObjectId ''650000000000000000000009'', body = OrderBody new_order\<rparr>])"
    by blast
  from m have "m = 3" by (simp add: multiplier_def example_request_def)
  moreover from p have "price_monthly p = Some 35000" by (auto simp: netflix_active_def)
  ultimately have "amount resp = 105000" using a by simp
  moreover from db' have "db' ''order'' = [\<lparr>doc_id = ObjectId ''650000000000000000000009'',
                             body = OrderBody new_order\<rparr>]"
    by (simp add: example_db_def)
  ultimately show ?thesis using found run pr by auto
qed

lemmas example_defs = example_request_def example_db_def canva_inactive_def netflix_active_def
  canva_request_def cash_request_def example_clock_def

lemmas create_order_eval = create_order_def Let_def multiplier_def OrderSchema_def matches_all_def
  create_document_def package_literals_def payment_method_literals_def
  status_literals_def delivery_channel_literals_def

lemma payment_instructions_table:
  "payment_instructions pm =
     (if pm = ''QRIS'' then
        [(''type'', ''qris''), (''note'', ''Scan QR berikut di aplikasi e-wallet Anda''),
         (''qr_image'',
          ''https://api.qrserver.com/v1/create-qr-code/?size=220x220&data=NASIR-STORE-DEMO'')]
      else if pm = ''Bank Transfer'' then
        [(''type'', ''bank''), (''bank'', ''BCA''), (''account_name'', ''NASIR STORE''),
         (''account_number'', ''1234567890'')]
      else if pm = ''E-Wallet'' then
        [(''type'', ''ewallet''), (''provider'', ''OVO/DANA/GoPay''),
         (''number'', ''0812-3456-7890''), (''name'', ''NASIR STORE'')]
      else [(''type'', ''info''), (''note'', ''Follow admin instruction'')])"
  by (simp add: payment_instructions_def)

text \<open>
  C4. Two calls of \<open>create_order\<close> that both return a response, on any databases, with
  any clocks, ObjectIds, products, packages and buyers, return the same \<open>payment\<close> object
  when their requests have the same \<open>payment_method\<close>: it is the entry of the fixed
  table for that string (QRIS, Bank Transfer, E-Wallet), the fallback entry for any
  other string. (A call that returns a response has passed the \<open>Order\<close> model, so
  its payment method is one of the three literals.)
\<close>

theorem payment_depends_on_method_only:
  assumes run1: "create_order ve1 now1 oid1 payload1 db1 = (Inr resp1, db1')"
    and run2: "create_order ve2 now2 oid2 payload2 db2 = (Inr resp2, db2')"
    and same: "req_payment_method payload1 = req_payment_method payload2"
  shows "payment resp1 = payment resp2
       \<and> payment resp1 = payment_instructions (req_payment_method payload1)
       \<and> payment_instructions (req_payment_method payload1) =
           (if req_payment_method payload1 = ''QRIS'' then
              [(''type'', ''qris''), (''note'', ''Scan QR berikut di aplikasi e-wallet Anda''),
               (''qr_image'',
                ''https://api.qrserver.com/v1/create-qr-code/?size=220x220&data=NASIR-STORE-DEMO'')]
            else if req_payment_method payload1 = ''Bank Transfer'' then
              [(''type'', ''bank''), (''bank'', ''BCA''), (''account_name'', ''NASIR STORE''),
               (''account_number'', ''1234567890'')]
            else if req_payment_method payload1 = ''E-Wallet'' then
              [(''type'', ''ewallet''), (''provider'', ''OVO/DANA/GoPay''),
               (''number'', ''0812-3456-7890''), (''name'', ''NASIR STORE'')]
            else [(''type'', ''info''), (''note'', ''Follow admin instruction'')])"
proof -
  from create_order_Inr [OF run1] create_order_Inr [OF run2] same
  have a: "payment resp1 = payment resp2"
    and b: "payment resp1 = payment_instructions (req_payment_method payload1)"
    by auto
  show ?thesis
    by (intro conjI) (rule a b payment_instructions_table)+
qed

text \<open>
  Two orders for different products, packages and buyers at different times, both
  paid by QRIS, get the same instructions.
\<close>

theorem payment_depends_on_method_only_witness:
  "\<exists>resp1 db1' resp2 db2'.
      create_order Some example_clock ''650000000000000000000009'' example_request example_db
        = (Inr resp1, db1')
    \<and> create_order Some (example_clock\<lparr>second := 59\<rparr>) ''65000000000000000000000a''
        canva_request (example_db(''order'' := []))
        = (Inr resp2, db2')
    \<and> req_payment_method example_request = req_payment_method canva_request
    \<and> payment resp1 = payment resp2
    \<and> payment resp2 = payment_instructions ''QRIS''"
proof -
  obtain resp1 db1' where run1:
    "create_order Some example_clock ''650000000000000000000009'' example_request example_db
       = (Inr resp1, db1')"
    by (simp add: create_order_eval example_defs)
  obtain resp2 db2' where run2:
    "create_order Some (example_clock\<lparr>second := 59\<rparr>) ''65000000000000000000000a''
        canva_request (example_db(''order'' := []))
       = (Inr resp2, db2')"
    by (simp add: create_order_eval example_defs)
  have same: "req_payment_method example_request = req_payment_method canva_request"
    by (simp add: example_defs)
  from payment_depends_on_method_only [OF run1 run2 same] same
  have "payment resp1 = payment resp2 \<and> payment resp2 = payment_instructions ''QRIS''"
    by (auto simp: example_defs)
  with run1 run2 same show ?thesis by blast
qed

subsection \<open>\<open>create_order\<close> and inactive products\<close>

lemma find_one_unique:
  assumes "d \<in> set ds" "matches_all filt d"
    and "\<forall>d'\<in>set ds. matches_all filt d' \<longrightarrow> d' = d"
  shows "find_one filt ds = Some d"
proof (cases "find_one filt ds")
  case None
  with assms(1,2) show ?thesis by (simp add: find_one_None)
next
  case (Some e)
  from find_one_Some [OF Some] assms(3) have "e = d" by blast
  with Some show ?thesis by simp
qed

lemma multiplier_positive: "multiplier pkg = Some m \<Longrightarrow> 0 < m"
  by (auto simp: multiplier_table split: if_splits)

lemma create_order_succeeds:
  assumes found: "find_one [Eq_slug (product_slug payload)] (db ''product'') = Some d"
    and p: "body d = ProductBody p"
    and m: "multiplier (req_package payload) = Some m"
    and n: "name p = Some n"
    and price_ok: "0 \<le> (case price_monthly p of None \<Rightarrow> 0 | Some b \<Rightarrow> b)"
    and mail: "ve (req_email payload) = Some e"
    and pay_ok: "req_payment_method payload \<in> set payment_method_literals"
    and chan_ok: "req_delivery_channel payload \<in> set delivery_channel_literals"
  shows "create_order ve now oid payload db =
     (Inr \<lparr>order_id = oid, r_order_code = generate_order_code now, r_status = ''pending'',
           amount = (case price_monthly p of None \<Rightarrow> 0 | Some b \<Rightarrow> b) * real_of_int m,
           r_product_name = Some n, r_package = req_package payload,
           payment = payment_instructions (req_payment_method payload)\<rparr>,
      db(''order'' := db ''order'' @
        [\<lparr>doc_id = ObjectId oid,
          body = OrderBody
            \<lparr>product_id = str_id (doc_id d), product_name = n, package = req_package payload,
             price = (case price_monthly p of None \<Rightarrow> 0 | Some b \<Rightarrow> b) * real_of_int m,
             buyer_name = req_buyer_name payload, email = e,
             whatsapp = req_whatsapp payload, payment_method = req_payment_method payload,
             status = ''pending'', order_code = Some (generate_order_code now),
             delivery_channel = req_delivery_channel payload, delivery_note = None,
             delivered_payload = None, updated_at = None\<rparr>\<rparr>]))"
proof -
  have pkg: "req_package payload \<in> set package_literals"
    using m by (auto simp: multiplier_table package_literals_def split: if_splits)
  have nonneg: "0 \<le> (case price_monthly p of None \<Rightarrow> 0 | Some b \<Rightarrow> b) * real_of_int m"
    using price_ok multiplier_positive [OF m] by simp
  have schema: "OrderSchema ve (str_id (doc_id d)) (get_name d) (req_package payload)
       ((case get_price_monthly d of None \<Rightarrow> 0 | Some b \<Rightarrow> b) * real_of_int m)
       (req_buyer_name payload) (req_email payload) (req_whatsapp payload)
       (req_payment_method payload) ''pending'' (generate_order_code now)
       (req_delivery_channel payload)
     = Inr \<lparr>product_id = str_id (doc_id d), product_name = n, package = req_package payload,
             price = (case price_monthly p of None \<Rightarrow> 0 | Some b \<Rightarrow> b) * real_of_int m,
             buyer_name = req_buyer_name payload, email = e,
             whatsapp = req_whatsapp payload, payment_method = req_payment_method payload,
             status = ''pending'', order_code = Some (generate_order_code now),
             delivery_channel = req_delivery_channel payload, delivery_note = None,
             delivered_payload = None, updated_at = None\<rparr>"
    using p n mail pay_ok chan_ok pkg nonneg
    by (simp add: OrderSchema_def status_literals_def)
  show ?thesis
    using found m schema p n
    by (simp add: create_order_def Let_def create_document_def)
qed

text \<open>
  C8, as the claim states it, fails: a request for the inactive example product with a
  package from the table and the payment method "Cash" does not succeed. The \<open>Order\<close>
  model rejects the method, \<open>create_order\<close> ends in pydantic's \<open>ValidationError\<close> and
  no order is stored.
\<close>

theorem create_order_inactive_counterexample:
  "canva_inactive \<in> set (example_db ''product'')
   \<and> get_slug canva_inactive = Some (product_slug cash_request)
   \<and> get_is_active canva_inactive = Some False
   \<and> multiplier (req_package cash_request) = Some 1
   \<and> get_product (product_slug cash_request) example_db
       = (Inl (HTTPException 404 ''Product not found''), example_db)
   \<and> create_order Some example_clock ''650000000000000000000009'' cash_request example_db
       = (Inl ValidationError, example_db)"
proof -
  have prods: "example_db ''product'' = [canva_inactive, netflix_active]"
    by (simp add: example_db_def)
  have req: "product_slug cash_request = ''canva-pro''" "req_package cash_request = ''1 Month''"
    "req_payment_method cash_request = ''Cash''"
    by (simp_all add: cash_request_def)
  have "get_product ''canva-pro'' example_db
       = (Inl (HTTPException 404 ''Product not found''), example_db)"
    by (simp add: get_product_def prods matches_all_def canva_inactive_def netflix_active_def)
  moreover have "create_order Some example_clock ''650000000000000000000009'' cash_request
      example_db = (Inl ValidationError, example_db)"
    by (simp add: create_order_def Let_def prods matches_all_def req multiplier_def
          OrderSchema_def payment_method_literals_def canva_inactive_def)
  moreover have "get_slug canva_inactive = Some ''canva-pro''"
    "get_is_active canva_inactive = Some False"
    by (simp_all add: canva_inactive_def)
  ultimately show ?thesis
    by (simp add: prods req multiplier_def del: get_slug.simps get_is_active.simps)
qed

text \<open>
  C8, amended. For a stored product with \<open>is_active = False\<close> that is the only product
  with its slug, \<open>get_product\<close> with the slug raises HTTP 404; \<open>create_order\<close> with the
  same slug succeeds and appends a pending order priced from that product whenever the
  request also passes the \<open>Order\<close> model: the package is in the price table, the
  e-mail is accepted by the validator, the payment method is one of "QRIS", "Bank
  Transfer", "E-Wallet", the delivery channel one of "email", "whatsapp", "both", and the
  product has a name and a price that is not negative.
\<close>

theorem create_order_ignores_is_active:
  assumes stored: "d \<in> set (db ''product'')"
    and p: "body d = ProductBody p"
    and inactive: "\<not> is_active p"
    and unique: "\<forall>d'\<in>set (db ''product''). get_slug d' = Some (slug p) \<longrightarrow> d' = d"
    and slug: "product_slug payload = slug p"
    and m: "multiplier (req_package payload) = Some m"
    and n: "name p = Some n"
    and price_ok: "0 \<le> (case price_monthly p of None \<Rightarrow> 0 | Some b \<Rightarrow> b)"
    and mail: "ve (req_email payload) = Some e"
    and pay_ok: "req_payment_method payload \<in> set payment_method_literals"
    and chan_ok: "req_delivery_channel payload \<in> set delivery_channel_literals"
  shows "get_product (slug p) db = (Inl (HTTPException 404 ''Product not found''), db)
     \<and> (\<exists>resp new_order.
           create_order ve now oid payload db =
             (Inr resp, db(''order'' := db ''order''
                @ [\<lparr>doc_id = ObjectId oid, body = OrderBody new_order\<rparr>]))
         \<and> r_status resp = ''pending'' \<and> status new_order = ''pending''
         \<and> product_id new_order = str_id (doc_id d)
         \<and> price new_order = (case price_monthly p of None \<Rightarrow> 0 | Some b \<Rightarrow> b) * real_of_int m
         \<and> amount resp = price new_order)"
proof -
  have none_active: "\<forall>d'\<in>set (db ''product'').
      \<not> matches_all [Eq_slug (slug p), Eq_is_active True] d'"
  proof
    fix d' assume d': "d' \<in> set (db ''product'')"
    show "\<not> matches_all [Eq_slug (slug p), Eq_is_active True] d'"
    proof
      assume "matches_all [Eq_slug (slug p), Eq_is_active True] d'"
      then obtain q where q: "body d' = ProductBody q" "slug q = slug p" "is_active q"
        by (auto simp: matches_slug_active)
      then have "get_slug d' = Some (slug p)" by simp
      with unique d' have "d' = d" by blast
      with q p inactive show False by simp
    qed
  qed
  then have "find_one [Eq_slug (slug p), Eq_is_active True] (db ''product'') = None"
    by (simp add: find_one_None)
  then have first: "get_product (slug p) db = (Inl (HTTPException 404 ''Product not found''), db)"
    by (simp add: get_product_def)
  have md: "matches_all [Eq_slug (product_slug payload)] d"
    using p slug by (simp add: matches_slug)
  have "\<forall>d'\<in>set (db ''product''). matches_all [Eq_slug (product_slug payload)] d' \<longrightarrow> d' = d"
    using unique slug by (auto simp: matches_slug)
  from find_one_unique [OF stored md this]
  have found: "find_one [Eq_slug (product_slug payload)] (db ''product'') = Some d" .
  note run = create_order_succeeds [where ve = ve and db = db and payload = payload
      and now = now and oid = oid, OF found p m n price_ok mail pay_ok chan_ok]
  show ?thesis
    by (intro conjI exI
          [of _ "\<lparr>order_id = oid, r_order_code = generate_order_code now,
                  r_status = ''pending'',
                  amount = (case price_monthly p of None \<Rightarrow> 0 | Some b \<Rightarrow> b)
                           * real_of_int m,
                  r_product_name = Some n, r_package = req_package payload,
                  payment = payment_instructions (req_payment_method payload)\<rparr>"]
          exI
          [of _ "\<lparr>product_id = str_id (doc_id d), product_name = n,
                  package = req_package payload,
                  price = (case price_monthly p of None \<Rightarrow> 0 | Some b \<Rightarrow> b)
                          * real_of_int m,
                  buyer_name = req_buyer_name payload, email = e,
                  whatsapp = req_whatsapp payload,
                  payment_method = req_payment_method payload,
                  status = ''pending'', order_code = Some (generate_order_code now),
                  delivery_channel = req_delivery_channel payload, delivery_note = None,
                  delivered_payload = None, updated_at = None\<rparr>"])
       (simp_all add: first run)
qed

text \<open>
  At the example database: Canva Pro is inactive, its slug gives 404, and a valid request
  for it is accepted and priced 20 times 20000.
\<close>

theorem create_order_ignores_is_active_witness:
  "get_product ''canva-pro'' example_db
     = (Inl (HTTPException 404 ''Product not found''), example_db)
   \<and> (\<exists>resp new_order.
         create_order Some example_clock ''650000000000000000000009'' canva_request example_db
           = (Inr resp, example_db(''order'' := example_db ''order''
                @ [\<lparr>doc_id = ObjectId ''650000000000000000000009'',
                    body = OrderBody new_order\<rparr>]))
       \<and> r_status resp = ''pending'' \<and> status new_order = ''pending''
       \<and> product_id new_order = ''650000000000000000000001''
       \<and> price new_order = 400000 \<and> amount resp = 400000)"
proof -
  define p where "p = \<lparr>name = Some ''Canva Pro'', slug = ''canva-pro'',
         description = ''Canva Pro fitur lengkap.'', short_description = ''Desain tanpa batas.'',
         logo_url = None, category = ''Design'', durations = [''1 Month'', ''3 Months''],
         login_method = ''Invite'', price_monthly = Some 20000, price_lifetime = Some 300000,
         is_featured = True, is_active = False\<rparr>"
  have prods: "example_db ''product'' = [canva_inactive, netflix_active]"
    by (simp add: example_db_def)
  have stored: "canva_inactive \<in> set (example_db ''product'')" by (simp add: prods)
  have body: "body canva_inactive = ProductBody p"
    by (simp add: canva_inactive_def p_def)
  have pf: "slug p = ''canva-pro''" "\<not> is_active p" "name p = Some ''Canva Pro''"
    "price_monthly p = Some 20000"
    by (simp_all add: p_def)
  have unique: "\<forall>d'\<in>set (example_db ''product'').
      get_slug d' = Some (slug p) \<longrightarrow> d' = canva_inactive"
    by (simp add: prods pf netflix_active_def)
  have req: "product_slug canva_request = slug p"
    "multiplier (req_package canva_request) = Some 20"
    "Some (req_email canva_request) = Some ''budi@example.com''"
    "req_payment_method canva_request \<in> set payment_method_literals"
    "req_delivery_channel canva_request \<in> set delivery_channel_literals"
    by (simp_all add: canva_request_def pf multiplier_def payment_method_literals_def
          delivery_channel_literals_def)
  have price_ok: "0 \<le> (case price_monthly p of None \<Rightarrow> 0 | Some b \<Rightarrow> b)"
    by (simp add: pf)
  have id: "str_id (doc_id canva_inactive) = ''650000000000000000000001''"
    by (simp add: canva_inactive_def)
  from create_order_ignores_is_active [where ve = Some and db = example_db
      and payload = canva_request and now = example_clock
      and oid = "''650000000000000000000009''", OF stored body pf(2) unique req(1) req(2)
      pf(3) price_ok req(3) req(4) req(5)]
  show ?thesis
    by (auto simp: pf id)
qed

subsection \<open>\<open>payment_notify\<close>\<close>

lemma update_one_no_match:
  "\<forall>x\<in>set ds. \<not> matches_all filt x \<Longrightarrow> update_one filt f ds = ds"
  by (induction ds) auto

lemma update_one_by_id:
  assumes "distinct (map doc_id ds)" and "d \<in> set ds"
  shows "update_one [Eq_id (doc_id d)] f ds = map (\<lambda>x. if x = d then f d else x) ds"
  using assms
proof (induction ds)
  case Nil
  then show ?case by simp
next
  case (Cons a ds)
  show ?case
  proof (cases "a = d")
    case True
    from Cons.prems True have "doc_id d \<notin> doc_id ` set ds" by simp
    then have "\<forall>x\<in>set ds. doc_id x \<noteq> doc_id d" by (metis imageI)
    then have "\<forall>x\<in>set ds. x \<noteq> d" by auto
    then have "map (\<lambda>x. if x = d then f d else x) ds = ds"
      by (induction ds) auto
    with True show ?thesis by (simp add: matches_all_def)
  next
    case False
    with Cons.prems have d: "d \<in> set ds" and "doc_id a \<notin> doc_id ` set ds" by auto
    then have "doc_id a \<noteq> doc_id d" by force
    with False Cons.IH d Cons.prems show ?thesis by (simp add: matches_all_def)
  qed
qed

lemma matches_order_code:
  "matches_all [Eq_order_code c] d = (\<exists>ord. body d = OrderBody ord \<and> order_code ord = Some c)"
  by (auto simp: matches_all_def split: body.splits)

lemma payment_notify_found:
  assumes ids: "distinct (map doc_id (db ''order''))"
    and found: "find_one [Eq_order_code (pn_order_code payload)] (db ''order'') = Some d"
    and ord: "body d = OrderBody ord"
  shows "payment_notify now payload db =
     (if pn_status payload = ''paid'' then
        (Inr \<lparr>updated = True, n_status = ''delivered'',
              n_delivered_payload =
                Some \<lparr>username = ''demo_'' @ lower (pn_order_code payload) @ ''@nasirstore.io'',
                      password = ''AutoGenerated123!'',
                      cred_note = ''Gunakan kredensial ini sesuai ketentuan. Ini demo.''\<rparr>\<rparr>,
         db(''order'' := map (\<lambda>x. if x = d then
              d\<lparr>body := OrderBody (ord\<lparr>status := ''delivered'',
                 delivered_payload :=
                   Some \<lparr>username = ''demo_'' @ lower (pn_order_code payload) @ ''@nasirstore.io'',
                         password = ''AutoGenerated123!'',
                         cred_note = ''Gunakan kredensial ini sesuai ketentuan. Ini demo.''\<rparr>,
                 updated_at := Some now\<rparr>)\<rparr> else x) (db ''order'')))
      else
        (Inr \<lparr>updated = True, n_status = ''failed'', n_delivered_payload = None\<rparr>,
         db(''order'' := map (\<lambda>x. if x = d then
              d\<lparr>body := OrderBody (ord\<lparr>status := ''failed'', updated_at := Some now\<rparr>)\<rparr>
              else x) (db ''order''))))"
proof -
  from find_one_Some [OF found] have d: "d \<in> set (db ''order'')" by simp
  note upd = update_one_by_id [OF ids d]
  show ?thesis
    using found ord by (simp add: payment_notify_def Let_def upd cong: if_cong)
qed

lemma zero_padded_2: "zero_padded 2 n = [digit (n div 10), digit n]"
proof -
  have "zero_padded (Suc (Suc 0)) n = [digit (n div 10), digit n]" by simp
  thus ?thesis by (simp only: numeral_2_eq_2)
qed

lemma zero_padded_4:
  "zero_padded 4 n = [digit (n div 1000), digit (n div 100), digit (n div 10), digit n]"
proof -
  have "zero_padded (Suc (Suc (Suc (Suc 0)))) n
      = [digit (n div 1000), digit (n div 100), digit (n div 10), digit n]"
    by (simp add: div_mult2_eq [symmetric])
  moreover have "(4::nat) = Suc (Suc (Suc (Suc 0)))" by simp
  ultimately show ?thesis by (simp only:)
qed

lemma example_order_code: "generate_order_code example_clock = ''NS-20240307010203''"
  by (simp add: generate_order_code_def strftime_def example_clock_def zero_padded_2
        zero_padded_4 digit_def)

text \<open>
  The two orders are what \<open>create_order\<close> stores for Ani's and for Budi's request when
  both arrive within the second of the example clock.
\<close>

lemma twin_orders_created:
  "snd (create_order Some example_clock ''65000000000000000000000e'' example_request example_db)
     = example_db(''order'' := [ani_order])"
  "snd (create_order Some example_clock ''65000000000000000000000f'' budi_request
          (example_db(''order'' := [ani_order])))
     = twin_orders_db"
proof -
  define p where "p = \<lparr>name = Some ''Netflix Premium'', slug = ''netflix-premium'',
         description = ''Akun Netflix Premium kualitas 4K.'',
         short_description = ''Netflix 4K, garansi, hemat.'',
         logo_url = None, category = ''Streaming'',
         durations = [''1 Month'', ''3 Months'', ''12 Months''],
         login_method = ''Shared'', price_monthly = Some 35000, price_lifetime = None,
         is_featured = True, is_active = True\<rparr>"
  have body: "body netflix_active = ProductBody p"
    by (simp add: netflix_active_def p_def)
  have pf: "name p = Some ''Netflix Premium''" "price_monthly p = Some 35000"
    by (simp_all add: p_def)
  have price_ok: "0 \<le> (case price_monthly p of None \<Rightarrow> 0 | Some b \<Rightarrow> b)"
    by (simp add: pf)
  have id: "str_id (doc_id netflix_active) = ''650000000000000000000002''"
    by (simp add: netflix_active_def)
  have found1: "find_one [Eq_slug (product_slug example_request)] (example_db ''product'')
      = Some netflix_active"
    by (simp add: example_request_def example_db_def canva_inactive_def netflix_active_def
          matches_all_def)
  have found2: "find_one [Eq_slug (product_slug budi_request)]
      ((example_db(''order'' := [ani_order])) ''product'') = Some netflix_active"
    by (simp add: budi_request_def example_db_def canva_inactive_def netflix_active_def
          matches_all_def)
  have req1: "multiplier (req_package example_request) = Some 3"
    "Some (req_email example_request) = Some ''ani@example.com''"
    "req_payment_method example_request \<in> set payment_method_literals"
    "req_delivery_channel example_request \<in> set delivery_channel_literals"
    by (simp_all add: example_request_def multiplier_def payment_method_literals_def
          delivery_channel_literals_def)
  have req2: "multiplier (req_package budi_request) = Some 1"
    "Some (req_email budi_request) = Some ''budi@example.com''"
    "req_payment_method budi_request \<in> set payment_method_literals"
    "req_delivery_channel budi_request \<in> set delivery_channel_literals"
    by (simp_all add: budi_request_def multiplier_def payment_method_literals_def
          delivery_channel_literals_def)
  have orders: "example_db ''order'' = []" by (simp add: example_db_def)
  from create_order_succeeds [where ve = Some and db = example_db
      and payload = example_request and now = example_clock
      and oid = "''65000000000000000000000e''", OF found1 body req1(1) pf(1) price_ok
      req1(2) req1(3) req1(4)]
  show "snd (create_order Some example_clock ''65000000000000000000000e'' example_request
          example_db) = example_db(''order'' := [ani_order])"
    by (simp add: pf id orders example_order_code ani_order_def example_request_def)
  from create_order_succeeds [where ve = Some and db = "example_db(''order'' := [ani_order])"
      and payload = budi_request and now = example_clock
      and oid = "''65000000000000000000000f''", OF found2 body req2(1) pf(1) price_ok
      req2(2) req2(3) req2(4)]
  show "snd (create_order Some example_clock ''65000000000000000000000f'' budi_request
          (example_db(''order'' := [ani_order]))) = twin_orders_db"
    by (simp add: pf id example_order_code budi_order_def budi_request_def twin_orders_db_def)
qed

lemma twin_orders_after_paid:
  "payment_notify example_clock paid_notice twin_orders_db =
     (Inr \<lparr>updated = True, n_status = ''delivered'',
           n_delivered_payload = Some demo_credentials\<rparr>,
      twin_orders_db(''order'' :=
        [ani_order\<lparr>body := OrderBody
            \<lparr>product_id = ''650000000000000000000002'', product_name = ''Netflix Premium'',
             package = ''3 Months'', price = 105000, buyer_name = ''Ani'',
             email = ''ani@example.com'', whatsapp = ''081234567890'',
             payment_method = ''QRIS'',
             status = ''delivered'', order_code = Some ''NS-20240307010203'',
             delivery_channel = ''email'', delivery_note = None,
             delivered_payload = Some demo_credentials,
             updated_at = Some example_clock\<rparr>\<rparr>,
         budi_order]))"
proof -
  define old where "old = \<lparr>product_id = ''650000000000000000000002'',
         product_name = ''Netflix Premium'',
         package = ''3 Months'', price = 105000, buyer_name = ''Ani'',
         email = ''ani@example.com'', whatsapp = ''081234567890'', payment_method = ''QRIS'',
         status = ''pending'', order_code = Some ''NS-20240307010203'',
         delivery_channel = ''email'', delivery_note = None, delivered_payload = None,
         updated_at = None\<rparr>"
  have orders: "twin_orders_db ''order'' = [ani_order, budi_order]"
    by (simp add: twin_orders_db_def)
  have ne: "budi_order \<noteq> ani_order" by (simp add: ani_order_def budi_order_def)
  have ids: "distinct (map doc_id (twin_orders_db ''order''))"
    by (simp add: orders ani_order_def budi_order_def)
  have found: "find_one [Eq_order_code (pn_order_code paid_notice)] (twin_orders_db ''order'')
      = Some ani_order"
    by (simp add: orders ani_order_def paid_notice_def matches_all_def)
  have body: "body ani_order = OrderBody old" by (simp add: ani_order_def old_def)
  have paid: "pn_status paid_notice = ''paid''" by (simp add: paid_notice_def)
  have creds: "\<lparr>username = ''demo_'' @ lower (pn_order_code paid_notice) @ ''@nasirstore.io'',
      password = ''AutoGenerated123!'',
      cred_note = ''Gunakan kredensial ini sesuai ketentuan. Ini demo.''\<rparr> = demo_credentials"
    by (simp add: paid_notice_def lower_def char_lower_def demo_credentials_def)
  from payment_notify_found [where db = twin_orders_db and payload = paid_notice
      and now = example_clock, OF ids found body]
  show ?thesis
    unfolding creds by (simp add: paid orders ne old_def)
qed

text \<open>
  C2, as the claim states it, fails. Ani's and Budi's orders were created in the same
  second and carry the same \<open>order_code\<close>. A notification "paid" with that code matches
  Budi's order too, but \<open>payment_notify\<close> updates only the document \<open>find_one\<close>
  returns: Ani's order becomes "delivered", Budi's stays "pending", while the response
  says updated, "delivered".
\<close>

theorem payment_notify_sets_status_counterexample:
  "snd (create_order Some example_clock ''65000000000000000000000f'' budi_request
     (snd (create_order Some example_clock ''65000000000000000000000e'' example_request
        example_db))) = twin_orders_db
   \<and> twin_orders_db ''order'' = [ani_order, budi_order]
   \<and> doc_id ani_order \<noteq> doc_id budi_order
   \<and> get_order_code ani_order = Some (pn_order_code paid_notice)
   \<and> get_order_code budi_order = Some (pn_order_code paid_notice)
   \<and> pn_status paid_notice = ''paid''
   \<and> fst (payment_notify example_clock paid_notice twin_orders_db)
       = Inr \<lparr>updated = True, n_status = ''delivered'',
               n_delivered_payload = Some demo_credentials\<rparr>
   \<and> map doc_id (snd (payment_notify example_clock paid_notice twin_orders_db) ''order'')
       = [doc_id ani_order, doc_id budi_order]
   \<and> map get_status (snd (payment_notify example_clock paid_notice twin_orders_db) ''order'')
       = [Some ''delivered'', Some ''pending'']"
proof -
  have "snd (create_order Some example_clock ''65000000000000000000000f'' budi_request
     (snd (create_order Some example_clock ''65000000000000000000000e'' example_request
        example_db))) = twin_orders_db"
    by (simp only: twin_orders_created)
  moreover have "twin_orders_db ''order'' = [ani_order, budi_order]"
    by (simp add: twin_orders_db_def)
  moreover have "doc_id ani_order \<noteq> doc_id budi_order"
    "get_order_code ani_order = Some (pn_order_code paid_notice)"
    "get_order_code budi_order = Some (pn_order_code paid_notice)"
    "pn_status paid_notice = ''paid''"
    by (simp_all add: ani_order_def budi_order_def paid_notice_def)
  moreover have "map doc_id (snd (payment_notify example_clock paid_notice twin_orders_db)
        ''order'') = [doc_id ani_order, doc_id budi_order]"
    "map get_status (snd (payment_notify example_clock paid_notice twin_orders_db) ''order'')
       = [Some ''delivered'', Some ''pending'']"
    by (simp_all add: twin_orders_after_paid budi_order_def)
  ultimately show ?thesis by (simp add: twin_orders_after_paid)
qed

text \<open>
  C2, amended. With the \<open>_id\<close>s of the order collection distinct (the database keeps
  them so): when an order document has the notification's \<open>order_code\<close>,
  \<open>payment_notify\<close> returns \<open>updated = True\<close> with the new status and replaces exactly
  the first such document, the one \<open>find_one\<close> returns, by one whose status is
  "delivered" if the notification's status is "paid" and "failed" for any other string;
  every other document, also a later order with the same \<open>order_code\<close>, and every
  other collection stays. When no order document has the \<open>order_code\<close>, it raises
  HTTP 404 "Order not found" and the database stays as it is.
\<close>

theorem payment_notify_sets_status:
  assumes ids: "distinct (map doc_id (db ''order''))"
  shows "(\<forall>d. find_one [Eq_order_code (pn_order_code payload)] (db ''order'') = Some d \<longrightarrow>
            (\<exists>ord ord' resp.
                body d = OrderBody ord \<and> order_code ord = Some (pn_order_code payload)
              \<and> payment_notify now payload db =
                  (Inr resp, db(''order'' :=
                     map (\<lambda>x. if x = d then d\<lparr>body := OrderBody ord'\<rparr> else x) (db ''order'')))
              \<and> updated resp \<and> n_status resp = status ord'
              \<and> status ord' = (if pn_status payload = ''paid'' then ''delivered'' else ''failed'')))
       \<and> ((\<forall>d\<in>set (db ''order''). get_order_code d \<noteq> Some (pn_order_code payload)) \<longrightarrow>
            payment_notify now payload db = (Inl (HTTPException 404 ''Order not found''), db))"
proof (intro conjI allI impI)
  fix d
  assume found: "find_one [Eq_order_code (pn_order_code payload)] (db ''order'') = Some d"
  from find_one_Some [OF found] obtain ord
    where ord: "body d = OrderBody ord" "order_code ord = Some (pn_order_code payload)"
    by (auto simp: matches_order_code)
  note run = payment_notify_found [where db = db and payload = payload and now = now,
      OF ids found ord(1)]
  show "\<exists>ord ord' resp.
                body d = OrderBody ord \<and> order_code ord = Some (pn_order_code payload)
              \<and> payment_notify now payload db =
                  (Inr resp, db(''order'' :=
                     map (\<lambda>x. if x = d then d\<lparr>body := OrderBody ord'\<rparr> else x) (db ''order'')))
              \<and> updated resp \<and> n_status resp = status ord'
              \<and> status ord' = (if pn_status payload = ''paid'' then ''delivered'' else ''failed'')"
  proof (cases "pn_status payload = ''paid''")
    case True
    with run ord show ?thesis
      by (intro exI [of _ ord]
            exI [of _ "ord\<lparr>status := ''delivered'',
                 delivered_payload :=
                   Some \<lparr>username = ''demo_'' @ lower (pn_order_code payload) @ ''@nasirstore.io'',
                         password = ''AutoGenerated123!'',
                         cred_note = ''Gunakan kredensial ini sesuai ketentuan. Ini demo.''\<rparr>,
                 updated_at := Some now\<rparr>"]
            exI [of _ "\<lparr>updated = True, n_status = ''delivered'',
              n_delivered_payload =
                Some \<lparr>username = ''demo_'' @ lower (pn_order_code payload) @ ''@nasirstore.io'',
                      password = ''AutoGenerated123!'',
                      cred_note = ''Gunakan kredensial ini sesuai ketentuan. Ini demo.''\<rparr>\<rparr>"])
         simp
  next
    case False
    with run ord show ?thesis
      by (intro exI [of _ ord]
            exI [of _ "ord\<lparr>status := ''failed'', updated_at := Some now\<rparr>"]
            exI [of _ "\<lparr>updated = True, n_status = ''failed'', n_delivered_payload = None\<rparr>"])
         simp
  qed
next
  assume "\<forall>d\<in>set (db ''order''). get_order_code d \<noteq> Some (pn_order_code payload)"
  then have "\<forall>d\<in>set (db ''order''). \<not> matches_all [Eq_order_code (pn_order_code payload)] d"
    by (simp add: matches_all_def)
  then have "find_one [Eq_order_code (pn_order_code payload)] (db ''order'') = None"
    by (simp add: find_one_None)
  then show "payment_notify now payload db = (Inl (HTTPException 404 ''Order not found''), db)"
    by (simp add: payment_notify_def)
qed

text \<open>
  At the example order collection, a notification with status "expired" for the stored
  order's code turns its status into "failed".
\<close>

theorem payment_notify_sets_status_witness:
  "distinct (map doc_id (orders_db ''order''))
   \<and> find_one [Eq_order_code (pn_order_code expired_notice)] (orders_db ''order'')
       = Some pending_order
   \<and> (\<exists>ord' resp.
         payment_notify example_clock expired_notice orders_db
           = (Inr resp, orders_db(''order'' := [pending_order\<lparr>body := OrderBody ord'\<rparr>]))
       \<and> updated resp \<and> n_status resp = ''failed'' \<and> status ord' = ''failed'')"
proof -
  have orders: "orders_db ''order'' = [pending_order]"
    by (simp add: orders_db_def)
  have ids: "distinct (map doc_id (orders_db ''order''))"
    by (simp add: orders)
  have found: "find_one [Eq_order_code (pn_order_code expired_notice)] (orders_db ''order'')
       = Some pending_order"
    by (simp add: orders matches_all_def pending_order_def expired_notice_def)
  have st: "pn_status expired_notice \<noteq> ''paid''"
    by (simp add: expired_notice_def)
  from payment_notify_sets_status [where db = orders_db and payload = expired_notice
      and now = example_clock, OF ids] found
  obtain ord' resp where
    "payment_notify example_clock expired_notice orders_db =
       (Inr resp, orders_db(''order'' :=
          map (\<lambda>x. if x = pending_order then pending_order\<lparr>body := OrderBody ord'\<rparr> else x)
            (orders_db ''order'')))"
    "updated resp" "n_status resp = status ord'"
    "status ord' = (if pn_status expired_notice = ''paid'' then ''delivered'' else ''failed'')"
    by blast
  with st have "payment_notify example_clock expired_notice orders_db
           = (Inr resp, orders_db(''order'' := [pending_order\<lparr>body := OrderBody ord'\<rparr>]))
       \<and> updated resp \<and> n_status resp = ''failed'' \<and> status ord' = ''failed''"
    by (simp add: orders)
  with ids found show ?thesis by blast
qed

text \<open>
  C3, as the claim states it, fails on the same two orders: the notification "paid"
  names an \<open>order_code\<close> that Budi's order has, the response returns the credentials,
  yet afterwards Budi's order has no \<open>delivered_payload\<close>; the credentials are stored on
  Ani's order only.
\<close>

theorem payment_notify_credentials_counterexample:
  "snd (create_order Some example_clock ''65000000000000000000000f'' budi_request
     (snd (create_order Some example_clock ''65000000000000000000000e'' example_request
        example_db))) = twin_orders_db
   \<and> twin_orders_db ''order'' = [ani_order, budi_order]
   \<and> doc_id ani_order \<noteq> doc_id budi_order
   \<and> get_order_code ani_order = Some (pn_order_code paid_notice)
   \<and> get_order_code budi_order = Some (pn_order_code paid_notice)
   \<and> pn_status paid_notice = ''paid''
   \<and> fst (payment_notify example_clock paid_notice twin_orders_db)
       = Inr \<lparr>updated = True, n_status = ''delivered'',
               n_delivered_payload = Some demo_credentials\<rparr>
   \<and> map doc_id (snd (payment_notify example_clock paid_notice twin_orders_db) ''order'')
       = [doc_id ani_order, doc_id budi_order]
   \<and> map get_delivered_payload
         (snd (payment_notify example_clock paid_notice twin_orders_db) ''order'')
       = [Some demo_credentials, None]"
proof -
  have "snd (create_order Some example_clock ''65000000000000000000000f'' budi_request
     (snd (create_order Some example_clock ''65000000000000000000000e'' example_request
        example_db))) = twin_orders_db"
    by (simp only: twin_orders_created)
  moreover have "twin_orders_db ''order'' = [ani_order, budi_order]"
    by (simp add: twin_orders_db_def)
  moreover have "doc_id ani_order \<noteq> doc_id budi_order"
    "get_order_code ani_order = Some (pn_order_code paid_notice)"
    "get_order_code budi_order = Some (pn_order_code paid_notice)"
    "pn_status paid_notice = ''paid''"
    by (simp_all add: ani_order_def budi_order_def paid_notice_def)
  moreover have "map doc_id (snd (payment_notify example_clock paid_notice twin_orders_db)
        ''order'') = [doc_id ani_order, doc_id budi_order]"
    "map get_delivered_payload
         (snd (payment_notify example_clock paid_notice twin_orders_db) ''order'')
       = [Some demo_credentials, None]"
    by (simp_all add: twin_orders_after_paid budi_order_def)
  ultimately show ?thesis by (simp add: twin_orders_after_paid)
qed

text \<open>
  C3, amended. With the \<open>_id\<close>s of the order collection distinct: when the
  notification's status is "paid" and \<open>d\<close> is the first order document with the
  notification's \<open>order_code\<close>, the one \<open>find_one\<close> returns, the credentials are:
  username "demo_", then the lowercased \<open>order_code\<close>, then "@nasirstore.io"; password
  "AutoGenerated123!"; and the fixed note. They depend on nothing but the
  \<open>order_code\<close>. The same credentials are in the response and are stored in \<open>d\<close> as
  \<open>delivered_payload\<close> (with status "delivered" and \<open>updated_at\<close> the time of the
  call); every other document, also a later order with the same \<open>order_code\<close>, stays
  as it is.
\<close>

theorem payment_notify_credentials:
  assumes ids: "distinct (map doc_id (db ''order''))"
    and found: "find_one [Eq_order_code (pn_order_code payload)] (db ''order'') = Some d"
    and paid: "pn_status payload = ''paid''"
  shows "\<exists>ord. body d = OrderBody ord
     \<and> payment_notify now payload db =
        (Inr \<lparr>updated = True, n_status = ''delivered'',
              n_delivered_payload =
                Some \<lparr>username = ''demo_'' @ lower (pn_order_code payload) @ ''@nasirstore.io'',
                      password = ''AutoGenerated123!'',
                      cred_note = ''Gunakan kredensial ini sesuai ketentuan. Ini demo.''\<rparr>\<rparr>,
         db(''order'' := map (\<lambda>x. if x = d then
              d\<lparr>body := OrderBody (ord\<lparr>status := ''delivered'',
                 delivered_payload :=
                   Some \<lparr>username = ''demo_'' @ lower (pn_order_code payload) @ ''@nasirstore.io'',
                         password = ''AutoGenerated123!'',
                         cred_note = ''Gunakan kredensial ini sesuai ketentuan. Ini demo.''\<rparr>,
                 updated_at := Some now\<rparr>)\<rparr> else x) (db ''order'')))"
proof -
  from find_one_Some [OF found] obtain ord where ord: "body d = OrderBody ord"
    by (auto simp: matches_order_code)
  from payment_notify_found [where db = db and payload = payload and now = now,
      OF ids found ord] paid ord
  show ?thesis by (intro exI [of _ ord]) simp
qed

text \<open>
  At the example order collection: the order code "NS-20240307010203" gives the username
  "demo_ns-20240307010203@nasirstore.io", returned and stored.
\<close>

theorem payment_notify_credentials_witness:
  "distinct (map doc_id (orders_db ''order''))
   \<and> find_one [Eq_order_code (pn_order_code paid_notice)] (orders_db ''order'')
       = Some pending_order
   \<and> pn_status paid_notice = ''paid''
   \<and> (\<exists>resp db' ord'.
         payment_notify example_clock paid_notice orders_db = (Inr resp, db')
       \<and> db' ''order'' = [pending_order\<lparr>body := OrderBody ord'\<rparr>]
       \<and> n_delivered_payload resp = delivered_payload ord'
       \<and> map_option username (delivered_payload ord')
           = Some ''demo_ns-20240307010203@nasirstore.io''
       \<and> map_option password (delivered_payload ord') = Some ''AutoGenerated123!'')"
proof -
  have orders: "orders_db ''order'' = [pending_order]"
    by (simp add: orders_db_def)
  have ids: "distinct (map doc_id (orders_db ''order''))"
    by (simp add: orders)
  have found: "find_one [Eq_order_code (pn_order_code paid_notice)] (orders_db ''order'')
       = Some pending_order"
    by (simp add: orders matches_all_def pending_order_def paid_notice_def)
  have paid: "pn_status paid_notice = ''paid''"
    by (simp add: paid_notice_def)
  have low: "lower (pn_order_code paid_notice) = ''ns-20240307010203''"
    by (simp add: paid_notice_def lower_def char_lower_def)
  from payment_notify_credentials [where db = orders_db and payload = paid_notice
      and now = example_clock, OF ids found paid]
  obtain ord where run: "payment_notify example_clock paid_notice orders_db =
        (Inr \<lparr>updated = True, n_status = ''delivered'',
              n_delivered_payload =
                Some \<lparr>username = ''demo_'' @ lower (pn_order_code paid_notice) @ ''@nasirstore.io'',
                      password = ''AutoGenerated123!'',
                      cred_note = ''Gunakan kredensial ini sesuai ketentuan. Ini demo.''\<rparr>\<rparr>,
         orders_db(''order'' := map (\<lambda>x. if x = pending_order then
              pending_order\<lparr>body := OrderBody (ord\<lparr>status := ''delivered'',
                 delivered_payload :=
                   Some \<lparr>username = ''demo_'' @ lower (pn_order_code paid_notice) @ ''@nasirstore.io'',
                         password = ''AutoGenerated123!'',
                         cred_note = ''Gunakan kredensial ini sesuai ketentuan. Ini demo.''\<rparr>,
                 updated_at := Some example_clock\<rparr>)\<rparr> else x) (orders_db ''order'')))"
    by blast
  define creds where "creds =
     \<lparr>username = ''demo_'' @ lower (pn_order_code paid_notice) @ ''@nasirstore.io'',
      password = ''AutoGenerated123!'',
      cred_note = ''Gunakan kredensial ini sesuai ketentuan. Ini demo.''\<rparr>"
  define ord' where "ord' =
     ord\<lparr>status := ''delivered'', delivered_payload := Some creds,
         updated_at := Some example_clock\<rparr>"
  have run': "payment_notify example_clock paid_notice orders_db =
      (Inr \<lparr>updated = True, n_status = ''delivered'', n_delivered_payload = Some creds\<rparr>,
       orders_db(''order'' := [pending_order\<lparr>body := OrderBody ord'\<rparr>]))"
    by (simp add: run orders ord'_def creds_def)
  have stored: "delivered_payload ord' = Some creds"
    by (simp add: ord'_def)
  have user: "username creds = ''demo_ns-20240307010203@nasirstore.io''"
    "password creds = ''AutoGenerated123!''"
    by (simp_all add: creds_def low)
  show ?thesis
    by (intro conjI ids found paid
          exI [of _ "\<lparr>updated = True, n_status = ''delivered'',
                       n_delivered_payload = Some creds\<rparr>"]
          exI [of _ "orders_db(''order'' := [pending_order\<lparr>body := OrderBody ord'\<rparr>])"]
          exI [of _ ord'])
       (simp_all add: run' stored user)
qed

subsection \<open>\<open>list_products\<close>\<close>

lemma find_limit_set:
  "d \<in> set (find_limit filt n ds) \<Longrightarrow> d \<in> set ds \<and> matches_all filt d"
  by (auto simp: find_limit_def dest: in_set_takeD)

lemma find_limit_length: "length (find_limit filt n ds) \<le> n"
  by (simp add: find_limit_def)

lemma matches_all_member: "matches_all filt d \<Longrightarrow> c \<in> set filt \<Longrightarrow> matches d c"
  by (simp add: matches_all_def list_all_iff)

lemma list_products_Inr:
  assumes "list_products regex q category_arg featured limit db = (Inr docs, db')"
  shows "\<exists>filt. docs = map to_dict
              (find_limit filt (nat (case limit of None \<Rightarrow> 100 | Some l \<Rightarrow> l)) (db ''product''))
     \<and> db' = db
     \<and> 1 \<le> (case limit of None \<Rightarrow> 100 | Some l \<Rightarrow> l)
     \<and> (case limit of None \<Rightarrow> 100 | Some l \<Rightarrow> l) \<le> 200
     \<and> Eq_is_active True \<in> set filt
     \<and> (\<forall>c. category_arg = Some c \<and> c \<noteq> [] \<longrightarrow> Eq_category c \<in> set filt)
     \<and> (\<forall>f. featured = Some f \<longrightarrow> Eq_is_featured f \<in> set filt)
     \<and> (\<forall>pat. q = Some pat \<and> pat \<noteq> [] \<longrightarrow>
            (\<exists>m. regex pat = Some m \<and> Or_regex m \<in> set filt))"
  using assms
  by (auto simp: list_products_def Let_def split: option.splits if_splits)

text \<open>
  C6. A limit below 1 or above 200 is rejected (the default, when none is given, is
  100). When \<open>list_products\<close> returns a list, the database is unchanged, the list has at
  most \<open>limit\<close> documents, and every document in it is a product with \<open>is_active = True\<close>,
  with the given category when a category is given, with the given \<open>is_featured\<close> when
  \<open>featured\<close> is given, and with a name, description or short description that the
  case-insensitive pattern \<open>q\<close> matches when \<open>q\<close> is given. As in the code
  (\<open>if category:\<close>, \<open>if q:\<close>), a category or a \<open>q\<close> is given when it is a non-empty
  string.
\<close>

theorem list_products_filters:
  "(((case limit of None \<Rightarrow> 100 | Some l \<Rightarrow> l) < 1 \<or> 200 < (case limit of None \<Rightarrow> 100 | Some l \<Rightarrow> l))
      \<longrightarrow> list_products regex q category_arg featured limit db
            = (Inl RequestValidationError, db))
   \<and> (\<forall>docs db'. list_products regex q category_arg featured limit db = (Inr docs, db') \<longrightarrow>
         db' = db
       \<and> 1 \<le> (case limit of None \<Rightarrow> 100 | Some l \<Rightarrow> l)
       \<and> (case limit of None \<Rightarrow> 100 | Some l \<Rightarrow> l) \<le> 200
       \<and> int (length docs) \<le> (case limit of None \<Rightarrow> 100 | Some l \<Rightarrow> l)
       \<and> (\<forall>d\<in>set docs. \<exists>p. body d = ProductBody p \<and> is_active p
             \<and> (\<forall>c. category_arg = Some c \<and> c \<noteq> [] \<longrightarrow> category p = c)
             \<and> (\<forall>f. featured = Some f \<longrightarrow> is_featured p = f)
             \<and> (\<forall>pat. q = Some pat \<and> pat \<noteq> [] \<longrightarrow>
                   (\<exists>m. regex pat = Some m
                      \<and> (regex_field m (name p) \<or> m (description p)
                           \<or> m (short_description p))))))"
proof (intro conjI allI impI)
  assume "(case limit of None \<Rightarrow> 100 | Some l \<Rightarrow> l) < 1
      \<or> 200 < (case limit of None \<Rightarrow> 100 | Some l \<Rightarrow> l)"
  then show "list_products regex q category_arg featured limit db
      = (Inl RequestValidationError, db)"
    by (auto simp: list_products_def)
next
  fix docs db'
  assume run: "list_products regex q category_arg featured limit db = (Inr docs, db')"
  from list_products_Inr [OF run] obtain filt where
    docs: "docs = map to_dict
        (find_limit filt (nat (case limit of None \<Rightarrow> 100 | Some l \<Rightarrow> l)) (db ''product''))"
    and same: "db' = db"
    and lo: "1 \<le> (case limit of None \<Rightarrow> 100 | Some l \<Rightarrow> l)"
    and hi: "(case limit of None \<Rightarrow> 100 | Some l \<Rightarrow> l) \<le> 200"
    and act: "Eq_is_active True \<in> set filt"
    and cat: "\<forall>c. category_arg = Some c \<and> c \<noteq> [] \<longrightarrow> Eq_category c \<in> set filt"
    and feat: "\<forall>f. featured = Some f \<longrightarrow> Eq_is_featured f \<in> set filt"
    and pat: "\<forall>pat. q = Some pat \<and> pat \<noteq> [] \<longrightarrow>
            (\<exists>m. regex pat = Some m \<and> Or_regex m \<in> set filt)"
    by blast
  show "db' = db" by (rule same)
  show "1 \<le> (case limit of None \<Rightarrow> 100 | Some l \<Rightarrow> l)" by (rule lo)
  show "(case limit of None \<Rightarrow> 100 | Some l \<Rightarrow> l) \<le> 200" by (rule hi)
  have "length docs \<le> nat (case limit of None \<Rightarrow> 100 | Some l \<Rightarrow> l)"
    by (simp add: docs find_limit_length)
  with lo show "int (length docs) \<le> (case limit of None \<Rightarrow> 100 | Some l \<Rightarrow> l)"
    by simp
  show "\<forall>d\<in>set docs. \<exists>p. body d = ProductBody p \<and> is_active p
             \<and> (\<forall>c. category_arg = Some c \<and> c \<noteq> [] \<longrightarrow> category p = c)
             \<and> (\<forall>f. featured = Some f \<longrightarrow> is_featured p = f)
             \<and> (\<forall>pat. q = Some pat \<and> pat \<noteq> [] \<longrightarrow>
                   (\<exists>m. regex pat = Some m
                      \<and> (regex_field m (name p) \<or> m (description p)
                           \<or> m (short_description p))))"
  proof
    fix d assume "d \<in> set docs"
    with docs obtain d0 where d0: "d = to_dict d0"
      "d0 \<in> set (find_limit filt (nat (case limit of None \<Rightarrow> 100 | Some l \<Rightarrow> l)) (db ''product''))"
      by auto
    from find_limit_set [OF d0(2)] have all: "matches_all filt d0" by simp
    from matches_all_member [OF all act] obtain p
      where p: "body d0 = ProductBody p" "is_active p"
      by (auto split: body.splits)
    have b: "body d = ProductBody p" using d0(1) p(1) by (simp add: to_dict_def)
    have c: "\<forall>c. category_arg = Some c \<and> c \<noteq> [] \<longrightarrow> category p = c"
    proof (intro allI impI)
      fix c assume "category_arg = Some c \<and> c \<noteq> []"
      with cat have "Eq_category c \<in> set filt" by blast
      from matches_all_member [OF all this] p(1) show "category p = c" by simp
    qed
    have f: "\<forall>f. featured = Some f \<longrightarrow> is_featured p = f"
    proof (intro allI impI)
      fix f assume "featured = Some f"
      with feat have "Eq_is_featured f \<in> set filt" by blast
      from matches_all_member [OF all this] p(1) show "is_featured p = f" by simp
    qed
    have r: "\<forall>pat. q = Some pat \<and> pat \<noteq> [] \<longrightarrow>
        (\<exists>m. regex pat = Some m
           \<and> (regex_field m (name p) \<or> m (description p) \<or> m (short_description p)))"
    proof (intro allI impI)
      fix s assume "q = Some s \<and> s \<noteq> []"
      with pat obtain m where m: "regex s = Some m" "Or_regex m \<in> set filt" by blast
      from matches_all_member [OF all m(2)] p(1)
      have "regex_field m (name p) \<or> m (description p) \<or> m (short_description p)" by simp
      with m(1) show "\<exists>m. regex s = Some m
           \<and> (regex_field m (name p) \<or> m (description p) \<or> m (short_description p))"
        by blast
    qed
    from b p(2) c f r
    show "\<exists>p. body d = ProductBody p \<and> is_active p
             \<and> (\<forall>c. category_arg = Some c \<and> c \<noteq> [] \<longrightarrow> category p = c)
             \<and> (\<forall>f. featured = Some f \<longrightarrow> is_featured p = f)
             \<and> (\<forall>pat. q = Some pat \<and> pat \<noteq> [] \<longrightarrow>
                   (\<exists>m. regex pat = Some m
                      \<and> (regex_field m (name p) \<or> m (description p)
                           \<or> m (short_description p))))"
      by blast
  qed
qed

text \<open>
  At the example database, with the example engine: the search "NETFLIX" in category
  "Streaming", featured, limit 10, returns the one active Netflix product.
\<close>

theorem list_products_filters_witness:
  "list_products literal_regex (Some ''NETFLIX'') (Some ''Streaming'') (Some True) (Some 10)
      example_db
     = (Inr [\<lparr>doc_id = IdStr ''650000000000000000000002'', body = body netflix_active\<rparr>],
        example_db)
   \<and> (\<exists>p m. body netflix_active = ProductBody p \<and> is_active p \<and> category p = ''Streaming''
         \<and> is_featured p \<and> literal_regex ''NETFLIX'' = Some m
         \<and> (regex_field m (name p) \<or> m (description p) \<or> m (short_description p)))"
proof -
  have prods: "example_db ''product'' = [canva_inactive, netflix_active]"
    by (simp add: example_db_def)
  have run: "list_products literal_regex (Some ''NETFLIX'') (Some ''Streaming'') (Some True)
      (Some 10) example_db
     = (Inr [\<lparr>doc_id = IdStr ''650000000000000000000002'', body = body netflix_active\<rparr>],
        example_db)"
    by (simp add: list_products_def prods find_limit_def matches_all_def to_dict_def
          literal_regex_def lower_def char_lower_def canva_inactive_def netflix_active_def)
  from list_products_filters [of "Some 10" literal_regex "Some ''NETFLIX''" "Some ''Streaming''"
      "Some True" example_db] run
  have "\<exists>p. body \<lparr>doc_id = IdStr ''650000000000000000000002'', body = body netflix_active\<rparr>
          = ProductBody p \<and> is_active p
        \<and> (\<forall>c. Some ''Streaming'' = Some c \<and> c \<noteq> [] \<longrightarrow> category p = c)
        \<and> (\<forall>f. Some True = Some f \<longrightarrow> is_featured p = f)
        \<and> (\<forall>pat. Some ''NETFLIX'' = Some pat \<and> pat \<noteq> [] \<longrightarrow>
              (\<exists>m. literal_regex pat = Some m
                 \<and> (regex_field m (name p) \<or> m (description p) \<or> m (short_description p))))"
    by simp
  then have "\<exists>p m. body netflix_active = ProductBody p \<and> is_active p
         \<and> category p = ''Streaming''
         \<and> is_featured p \<and> literal_regex ''NETFLIX'' = Some m
         \<and> (regex_field m (name p) \<or> m (description p) \<or> m (short_description p))"
    by auto
  with run show ?thesis by simp
qed

subsection \<open>\<open>create_testimonial\<close> and \<open>create_contact\<close>\<close>

text \<open>
  C7. For a testimonial whose rating is between 1 and 5, \<open>create_testimonial\<close> returns
  the id of the inserted document and the database afterwards is the database before
  with exactly that testimonial appended to the collection "testimonial". For a contact
  message whose e-mail the validator accepts, \<open>create_contact\<close> returns the id and
  appends exactly the validated message (the e-mail normalised) to the collection
  "contactmessage". Every other collection, and every document that was stored before,
  is unchanged.
\<close>

theorem create_testimonial_contact_insert:
  "(1 \<le> rating t \<and> rating t \<le> 5 \<longrightarrow>
      (\<exists>db'. create_testimonial oid t db = (Inr \<lparr>inserted_id = oid\<rparr>, db')
         \<and> db' ''testimonial''
             = db ''testimonial'' @ [\<lparr>doc_id = ObjectId oid, body = TestimonialBody t\<rparr>]
         \<and> (\<forall>c. c \<noteq> ''testimonial'' \<longrightarrow> db' c = db c)))
   \<and> (\<forall>e. validate_email (c_email m) = Some e \<longrightarrow>
      (\<exists>db'. create_contact validate_email oid m db = (Inr \<lparr>inserted_id = oid\<rparr>, db')
         \<and> db' ''contactmessage''
             = db ''contactmessage''
               @ [\<lparr>doc_id = ObjectId oid, body = ContactBody (m\<lparr>c_email := e\<rparr>)\<rparr>]
         \<and> (\<forall>c. c \<noteq> ''contactmessage'' \<longrightarrow> db' c = db c)))"
  by (simp add: create_testimonial_def create_contact_def create_document_def)

text \<open>
  At the example database: a five-star testimonial and a contact message are stored in
  their collections; the product collection is as before.
\<close>

theorem create_testimonial_contact_insert_witness:
  "(1 \<le> rating example_testimonial \<and> rating example_testimonial \<le> 5)
   \<and> (\<exists>db'. create_testimonial ''65000000000000000000000c'' example_testimonial example_db
              = (Inr \<lparr>inserted_id = ''65000000000000000000000c''\<rparr>, db')
         \<and> db' ''testimonial''
             = [\<lparr>doc_id = ObjectId ''65000000000000000000000c'',
                 body = TestimonialBody example_testimonial\<rparr>]
         \<and> db' ''product'' = example_db ''product'')
   \<and> (\<exists>db'. create_contact Some ''65000000000000000000000d'' example_contact example_db
              = (Inr \<lparr>inserted_id = ''65000000000000000000000d''\<rparr>, db')
         \<and> db' ''contactmessage''
             = [\<lparr>doc_id = ObjectId ''65000000000000000000000d'',
                 body = ContactBody example_contact\<rparr>]
         \<and> db' ''product'' = example_db ''product'')"
proof -
  have ok: "1 \<le> rating example_testimonial \<and> rating example_testimonial \<le> 5"
    by (simp add: example_testimonial_def)
  have mail: "Some (c_email example_contact) = Some (c_email example_contact)" by simp
  have same: "example_contact\<lparr>c_email := c_email example_contact\<rparr> = example_contact"
    by simp
  have empty: "example_db ''testimonial'' = []" "example_db ''contactmessage'' = []"
    by (simp_all add: example_db_def)
  note inst1 = create_testimonial_contact_insert [where t = example_testimonial
      and oid = "''65000000000000000000000c''" and db = example_db
      and validate_email = Some and m = example_contact]
  note inst2 = create_testimonial_contact_insert [where t = example_testimonial
      and oid = "''65000000000000000000000d''" and db = example_db
      and validate_email = Some and m = example_contact]
  from inst1 ok obtain db1 where
    t: "create_testimonial ''65000000000000000000000c'' example_testimonial example_db
          = (Inr \<lparr>inserted_id = ''65000000000000000000000c''\<rparr>, db1)"
      "db1 ''testimonial'' = example_db ''testimonial''
          @ [\<lparr>doc_id = ObjectId ''65000000000000000000000c'',
             body = TestimonialBody example_testimonial\<rparr>]"
      "\<forall>c. c \<noteq> ''testimonial'' \<longrightarrow> db1 c = example_db c"
    by blast
  from inst2 mail obtain db2 where
    c: "create_contact Some ''65000000000000000000000d'' example_contact example_db
          = (Inr \<lparr>inserted_id = ''65000000000000000000000d''\<rparr>, db2)"
      "db2 ''contactmessage'' = example_db ''contactmessage''
          @ [\<lparr>doc_id = ObjectId ''65000000000000000000000d'',
             body = ContactBody (example_contact\<lparr>c_email := c_email example_contact\<rparr>)\<rparr>]"
      "\<forall>c. c \<noteq> ''contactmessage'' \<longrightarrow> db2 c = example_db c"
    by blast
  from t(3) have p1: "db1 ''product'' = example_db ''product''" by simp
  from c(3) have p2: "db2 ''product'' = example_db ''product''" by simp
  from ok t(1) t(2) p1 c(1) c(2) p2 show ?thesis
    by (simp add: empty same)
qed

subsection \<open>\<open>seed_products\<close>\<close>

lemma seed_loop_appends:
  "seed_loop oid_of i ps db =
     db(''product'' := db ''product''
        @ map (\<lambda>(j, p). \<lparr>doc_id = ObjectId (oid_of j), body = ProductBody p\<rparr>)
            (enumerate i ps))"
  by (induction ps arbitrary: i db) (simp_all add: create_document_def)

lemma enumerate_not_empty: "xs \<noteq> [] \<Longrightarrow> enumerate n xs \<noteq> []"
  by (cases xs) simp_all

lemma length_samples: "length samples = 5"
  by (simp add: samples_def)

text \<open>
  C9. On an empty product collection \<open>seed_products\<close> inserts the five samples, in order,
  and returns \<open>seeded = True\<close> with count 5. On a product collection that is not empty
  it returns \<open>seeded = False\<close> and the database is unchanged. So a second run right after
  any run returns \<open>seeded = False\<close> and leaves the database as the first run left it.
\<close>

theorem seed_products_idempotent:
  "(db ''product'' = [] \<longrightarrow>
      seed_products oid_of db =
        (\<lparr>seeded = True, seed_message = None, seed_count = Some 5\<rparr>,
         db(''product'' :=
              map (\<lambda>(j, p). \<lparr>doc_id = ObjectId (oid_of j), body = ProductBody p\<rparr>)
                (enumerate 0 samples))))
   \<and> (db ''product'' \<noteq> [] \<longrightarrow>
      seed_products oid_of db =
        (\<lparr>seeded = False, seed_message = Some ''Products already exist'', seed_count = None\<rparr>,
         db))
   \<and> seed_products oid_of' (snd (seed_products oid_of db)) =
        (\<lparr>seeded = False, seed_message = Some ''Products already exist'', seed_count = None\<rparr>,
         snd (seed_products oid_of db))"
proof (intro conjI impI)
  assume "db ''product'' = []"
  then show "seed_products oid_of db =
        (\<lparr>seeded = True, seed_message = None, seed_count = Some 5\<rparr>,
         db(''product'' :=
              map (\<lambda>(j, p). \<lparr>doc_id = ObjectId (oid_of j), body = ProductBody p\<rparr>)
                (enumerate 0 samples)))"
    by (simp add: seed_products_def seed_loop_appends length_samples)
next
  assume "db ''product'' \<noteq> []"
  then show "seed_products oid_of db =
        (\<lparr>seeded = False, seed_message = Some ''Products already exist'', seed_count = None\<rparr>,
         db)"
    by (simp add: seed_products_def)
next
  have "snd (seed_products oid_of db) ''product'' \<noteq> []"
  proof (cases "db ''product'' = []")
    case True
    have "samples \<noteq> []" using length_samples by auto
    then have "enumerate 0 samples \<noteq> []" by (rule enumerate_not_empty)
    with True show ?thesis
      by (simp add: seed_products_def seed_loop_appends length_samples)
  next
    case False
    then show ?thesis by (simp add: seed_products_def)
  qed
  then show "seed_products oid_of' (snd (seed_products oid_of db)) =
        (\<lparr>seeded = False, seed_message = Some ''Products already exist'', seed_count = None\<rparr>,
         snd (seed_products oid_of db))"
    by (simp add: seed_products_def)
qed

text \<open>
  From the empty database: the first run stores five products, the first of them
  Netflix Premium; the second run changes nothing.
\<close>

theorem seed_products_idempotent_witness:
  "(\<lambda>_. []) ''product'' = ([] :: document list)
   \<and> fst (seed_products (\<lambda>i. zero_padded 24 i) (\<lambda>_. []))
       = \<lparr>seeded = True, seed_message = None, seed_count = Some 5\<rparr>
   \<and> length (snd (seed_products (\<lambda>i. zero_padded 24 i) (\<lambda>_. [])) ''product'') = 5
   \<and> map get_slug (snd (seed_products (\<lambda>i. zero_padded 24 i) (\<lambda>_. [])) ''product'')
       = [Some ''netflix-premium'', Some ''spotify-premium'', Some ''canva-pro'',
          Some ''chatgpt-plus'', Some ''youtube-premium'']
   \<and> snd (seed_products (\<lambda>i. zero_padded 24 (i + 5))
          (snd (seed_products (\<lambda>i. zero_padded 24 i) (\<lambda>_. []))))
       = snd (seed_products (\<lambda>i. zero_padded 24 i) (\<lambda>_. []))"
proof -
  have empty: "(\<lambda>_. []) ''product'' = ([] :: document list)" by simp
  note inst = seed_products_idempotent [where db = "\<lambda>_. []"
      and oid_of = "\<lambda>i. zero_padded 24 i" and oid_of' = "\<lambda>i. zero_padded 24 (i + 5)"]
  from inst empty have first: "seed_products (\<lambda>i. zero_padded 24 i) (\<lambda>_. []) =
        (\<lparr>seeded = True, seed_message = None, seed_count = Some 5\<rparr>,
         (\<lambda>_. [])(''product'' :=
              map (\<lambda>(j, p). \<lparr>doc_id = ObjectId (zero_padded 24 j), body = ProductBody p\<rparr>)
                (enumerate 0 samples)))"
    by blast
  have second: "snd (seed_products (\<lambda>i. zero_padded 24 (i + 5))
          (snd (seed_products (\<lambda>i. zero_padded 24 i) (\<lambda>_. []))))
       = snd (seed_products (\<lambda>i. zero_padded 24 i) (\<lambda>_. []))"
    by (simp only: inst [THEN conjunct2, THEN conjunct2] snd_conv)
  have slugs: "map get_slug
      (map (\<lambda>(j, p). \<lparr>doc_id = ObjectId (zero_padded 24 j), body = ProductBody p\<rparr>)
         (enumerate 0 samples))
       = [Some ''netflix-premium'', Some ''spotify-premium'', Some ''canva-pro'',
          Some ''chatgpt-plus'', Some ''youtube-premium'']"
    by (simp add: samples_def ProductCreate_def)
  have prod: "snd (seed_products (\<lambda>i. zero_padded 24 i) (\<lambda>_. [])) ''product'' =
      map (\<lambda>(j, p). \<lparr>doc_id = ObjectId (zero_padded 24 j), body = ProductBody p\<rparr>)
        (enumerate 0 samples)"
    by (simp add: first)
  have len: "length (snd (seed_products (\<lambda>i. zero_padded 24 i) (\<lambda>_. [])) ''product'') = 5"
    by (simp add: prod length_samples)
  have sl: "map get_slug (snd (seed_products (\<lambda>i. zero_padded 24 i) (\<lambda>_. [])) ''product'')
       = [Some ''netflix-premium'', Some ''spotify-premium'', Some ''canva-pro'',
          Some ''chatgpt-plus'', Some ''youtube-premium'']"
    by (simp only: prod slugs)
  have resp: "fst (seed_products (\<lambda>i. zero_padded 24 i) (\<lambda>_. []))
       = \<lparr>seeded = True, seed_message = None, seed_count = Some 5\<rparr>"
    by (simp add: first)
  show ?thesis
    by (intro conjI empty resp len sl second)
qed

subsection \<open>Order statuses\<close>

lemma update_one_set:
  "x \<in> set (update_one filt f ds) \<Longrightarrow> x \<in> set ds \<or> (\<exists>y\<in>set ds. x = f y)"
  by (induction ds) (auto split: if_splits)

lemma set_fields_status:
  assumes "body (set_fields (Set_status s # as) y) = OrderBody ord"
    and "\<forall>a\<in>set as. \<forall>s'. a \<noteq> Set_status s'"
  shows "set_fields (Set_status s # as) y = y \<or> status ord = s"
proof (cases "body y")
  case (OrderBody old)
  have keep: "status (foldl (\<lambda>r a. assign a r) r as) = status r" for r
    using assms(2)
  proof (induction as arbitrary: r)
    case Nil
    then show ?case by simp
  next
    case (Cons a as)
    then show ?case by (cases a) auto
  qed
  from assms(1) OrderBody
  have "ord = foldl (\<lambda>r a. assign a r) (old\<lparr>status := s\<rparr>) as"
    by simp
  with keep [of "old\<lparr>status := s\<rparr>"] show ?thesis by simp
qed (use assms(1) in auto)

lemma list_products_db: "snd (list_products regex q c f l db) = db"
  by (auto simp: list_products_def Let_def split: option.splits)

lemma get_product_db: "snd (get_product s db) = db"
  by (simp add: get_product_def split: option.splits)

lemma get_order_db: "snd (get_order code db) = db"
  by (simp add: get_order_def split: option.splits)

lemma seed_products_orders: "snd (seed_products oid_of db) ''order'' = db ''order''"
  by (simp add: seed_products_def seed_loop_appends)

lemma create_testimonial_orders: "snd (create_testimonial oid t db) ''order'' = db ''order''"
  by (simp add: create_testimonial_def create_document_def)

lemma create_contact_orders: "snd (create_contact ve oid m db) ''order'' = db ''order''"
  by (simp add: create_contact_def create_document_def split: option.splits)

lemma create_order_orders:
  assumes "d \<in> set (snd (create_order ve now oid payload db) ''order'')"
    and "d \<notin> set (db ''order'')"
  shows "\<exists>ord. body d = OrderBody ord \<and> status ord = ''pending''"
proof (cases "fst (create_order ve now oid payload db)")
  case (Inl e)
  then have "snd (create_order ve now oid payload db) = db"
    by (auto simp: create_order_def Let_def create_document_def
          split: option.splits sum.splits)
  with assms show ?thesis by simp
next
  case (Inr resp)
  then have run: "create_order ve now oid payload db
      = (Inr resp, snd (create_order ve now oid payload db))"
    by (metis prod.collapse)
  from create_order_Inr [OF run] obtain product_doc m new_order where
    schema: "OrderSchema ve (str_id (doc_id product_doc)) (get_name product_doc)
               (req_package payload)
               ((case get_price_monthly product_doc of None \<Rightarrow> 0 | Some b \<Rightarrow> b) * real_of_int m)
               (req_buyer_name payload) (req_email payload) (req_whatsapp payload)
               (req_payment_method payload) ''pending'' (generate_order_code now)
               (req_delivery_channel payload) = Inr new_order"
    and db': "snd (create_order ve now oid payload db)
        = db(''order'' := db ''order'' @ [\<lparr>doc_id = ObjectId oid, body = OrderBody new_order\<rparr>])"
    by blast
  from assms db' have "d = \<lparr>doc_id = ObjectId oid, body = OrderBody new_order\<rparr>" by auto
  with OrderSchema_Inr [OF schema] show ?thesis by simp
qed

lemma payment_notify_orders:
  assumes "d \<in> set (snd (payment_notify now payload db) ''order'')"
    and "d \<notin> set (db ''order'')"
    and "body d = OrderBody ord"
  shows "status ord = ''delivered'' \<or> status ord = ''failed''"
proof (cases "find_one [Eq_order_code (pn_order_code payload)] (db ''order'')")
  case None
  then have "snd (payment_notify now payload db) = db"
    by (simp add: payment_notify_def)
  with assms show ?thesis by simp
next
  case (Some found)
  show ?thesis
  proof (cases "pn_status payload = ''paid''")
    case True
    with Some assms(1) have "d \<in> set (update_one [Eq_id (doc_id found)]
        (set_fields [Set_status ''delivered'',
           Set_delivered_payload
             \<lparr>username = ''demo_'' @ lower (pn_order_code payload) @ ''@nasirstore.io'',
              password = ''AutoGenerated123!'',
              cred_note = ''Gunakan kredensial ini sesuai ketentuan. Ini demo.''\<rparr>,
           Set_updated_at now]) (db ''order''))"
      by (simp add: payment_notify_def Let_def)
    from update_one_set [OF this] assms(2) obtain y where y: "y \<in> set (db ''order'')"
      "d = set_fields [Set_status ''delivered'',
           Set_delivered_payload
             \<lparr>username = ''demo_'' @ lower (pn_order_code payload) @ ''@nasirstore.io'',
              password = ''AutoGenerated123!'',
              cred_note = ''Gunakan kredensial ini sesuai ketentuan. Ini demo.''\<rparr>,
           Set_updated_at now] y"
      by blast
    with assms(2) have differ: "d \<noteq> y" by auto
    from assms(3) have b: "body (set_fields [Set_status ''delivered'',
           Set_delivered_payload
             \<lparr>username = ''demo_'' @ lower (pn_order_code payload) @ ''@nasirstore.io'',
              password = ''AutoGenerated123!'',
              cred_note = ''Gunakan kredensial ini sesuai ketentuan. Ini demo.''\<rparr>,
           Set_updated_at now] y) = OrderBody ord"
      unfolding y(2) .
    have nos: "\<forall>a\<in>set [Set_delivered_payload
             \<lparr>username = ''demo_'' @ lower (pn_order_code payload) @ ''@nasirstore.io'',
              password = ''AutoGenerated123!'',
              cred_note = ''Gunakan kredensial ini sesuai ketentuan. Ini demo.''\<rparr>,
           Set_updated_at now]. \<forall>s'. a \<noteq> Set_status s'"
      by simp
    from set_fields_status [OF b nos] differ y(2) show ?thesis by metis
  next
    case False
    with Some assms(1) have "d \<in> set (update_one [Eq_id (doc_id found)]
        (set_fields [Set_status ''failed'', Set_updated_at now]) (db ''order''))"
      by (simp add: payment_notify_def Let_def)
    from update_one_set [OF this] assms(2) obtain y where y: "y \<in> set (db ''order'')"
      "d = set_fields [Set_status ''failed'', Set_updated_at now] y"
      by blast
    with assms(2) have differ: "d \<noteq> y" by auto
    from assms(3)
    have b: "body (set_fields [Set_status ''failed'', Set_updated_at now] y) = OrderBody ord"
      unfolding y(2) .
    have nos: "\<forall>a\<in>set [Set_updated_at now]. \<forall>s'. a \<noteq> Set_status s'"
      by simp
    from set_fields_status [OF b nos] differ y(2) show ?thesis by metis
  qed
qed

text \<open>
  C10. Whatever the database and the request: an order document that is in the order
  collection after the request and was not there before (a new document, or a stored one
  that changed) has its status in "pending", "delivered", "failed", so that it is never
  "paid". One that \<open>create_order\<close> wrote has status "pending"; one that \<open>payment_notify\<close>
  wrote has status "delivered" or "failed"; the other endpoints write no order document.
\<close>

theorem written_order_status:
  assumes after: "d \<in> set (api_step env req db ''order'')"
    and before: "d \<notin> set (db ''order'')"
    and ord: "body d = OrderBody ord"
  shows "status ord \<in> {''pending'', ''delivered'', ''failed''}
       \<and> status ord \<noteq> ''paid''
       \<and> ((\<exists>payload. req = CreateOrder payload) \<and> status ord = ''pending''
          \<or> (\<exists>payload. req = NotifyPayment payload)
             \<and> (status ord = ''delivered'' \<or> status ord = ''failed''))"
proof (cases req)
  case (CreateOrder payload)
  with after before create_order_orders ord show ?thesis by fastforce
next
  case (NotifyPayment payload)
  with after before ord
    payment_notify_orders [of d "env_now env" payload db ord]
  show ?thesis by auto
qed (use after before in \<open>simp_all add: list_products_db get_product_db get_order_db
      seed_products_orders create_testimonial_orders create_contact_orders\<close>)

text \<open>
  At the example order collection: after the notification "paid" the stored order is
  replaced by a document with status "delivered"; it was "pending" before.
\<close>

theorem written_order_status_witness:
  "\<exists>d ord. d \<in> set (api_step example_env (NotifyPayment paid_notice) orders_db ''order'')
     \<and> d \<notin> set (orders_db ''order'')
     \<and> body d = OrderBody ord
     \<and> status ord = ''delivered''
     \<and> status ord \<in> {''pending'', ''delivered'', ''failed''}"
proof -
  define creds where "creds =
     \<lparr>username = ''demo_'' @ lower (pn_order_code paid_notice) @ ''@nasirstore.io'',
      password = ''AutoGenerated123!'',
      cred_note = ''Gunakan kredensial ini sesuai ketentuan. Ini demo.''\<rparr>"
  define old where "old =
        \<lparr>product_id = ''650000000000000000000002'', product_name = ''Netflix Premium'',
         package = ''3 Months'', price = 105000, buyer_name = ''Ani'',
         email = ''ani@example.com'', whatsapp = ''081234567890'', payment_method = ''QRIS'',
         status = ''pending'', order_code = Some ''NS-20240307010203'',
         delivery_channel = ''email'', delivery_note = None, delivered_payload = None,
         updated_at = None\<rparr>"
  define new where "new =
     old\<lparr>status := ''delivered'', delivered_payload := Some creds,
         updated_at := Some example_clock\<rparr>"
  define d where "d = pending_order\<lparr>body := OrderBody new\<rparr>"
  have orders: "orders_db ''order'' = [pending_order]"
    by (simp add: orders_db_def)
  have ids: "distinct (map doc_id (orders_db ''order''))"
    by (simp add: orders)
  have body_old: "body pending_order = OrderBody old"
    by (simp add: pending_order_def old_def)
  have found: "find_one [Eq_order_code (pn_order_code paid_notice)] (orders_db ''order'')
       = Some pending_order"
    by (simp add: orders matches_all_def pending_order_def paid_notice_def)
  have paid: "pn_status paid_notice = ''paid''"
    by (simp add: paid_notice_def)
  from payment_notify_found [where db = orders_db and payload = paid_notice
      and now = example_clock, OF ids found body_old] paid
  have "snd (payment_notify example_clock paid_notice orders_db) ''order'' = [d]"
    by (simp add: orders d_def new_def creds_def)
  then have after: "d \<in> set (api_step example_env (NotifyPayment paid_notice) orders_db ''order'')"
    by (simp add: example_env_def)
  have "status new \<noteq> status old"
    by (simp add: new_def old_def)
  then have "body d \<noteq> body pending_order"
    by (auto simp: d_def body_old)
  then have "d \<noteq> pending_order" by auto
  then have before: "d \<notin> set (orders_db ''order'')"
    by (simp add: orders)
  have ord: "body d = OrderBody new"
    by (simp add: d_def)
  have st: "status new = ''delivered''"
    by (simp add: new_def)
  from written_order_status [OF after before ord]
  have "status new \<in> {''pending'', ''delivered'', ''failed''}" by blast
  with after before ord st show ?thesis by blast
qed

end
